theory Spec2Isabelle
  imports Main "HOL-Library.AList"
begin

section \<open>The wishlist application (app.py)\<close>

subsection \<open>Values\<close>

text \<open>
  Every value the program handles is what \<^verbatim>\<open>json.load\<close> returns or what the POST
  handler builds from strings, \<^verbatim>\<open>None\<close> and \<^verbatim>\<open>False\<close>: null, a boolean, a number,
  a string, a list, or a dict with string keys. A dict is an association list in
  insertion order, as Python keeps it and \<^verbatim>\<open>json.dump\<close> writes it. The program never
  computes with numbers; a float is kept as its decimal text.
\<close>

datatype json =
    JNull
  | JBool bool
  | JInt int
  | JFloat string
  | JStr string
  | JArr "json list"
  | JObj "(string \<times> json) list"

datatype error =
    JSONDecodeError
  | BadRequestKeyError
  | TypeError
  | AttributeError
  | KeyError
  | IndexError

subsection \<open>The file\<close>

text \<open>
  The state is the file \<^verbatim>\<open>wishlist_data.json\<close>: absent (\<open>None\<close>) or present. A present
  file holds either text that \<^verbatim>\<open>json.load\<close> rejects, or a JSON document, kept here as
  the value \<^verbatim>\<open>json.load\<close> reads from it. This is the state the handlers are stated
  on. The text itself, with \<^verbatim>\<open>json.dump\<close> and \<^verbatim>\<open>json.load\<close> written out, is the
  subsection on the file as text below; there the state of this subsection is
  obtained from the text by the decoder.
\<close>

datatype file_content = Malformed | Document json

type_synonym file_state = "file_content option"

fun load_data :: "file_state \<Rightarrow> error + json" where
  "load_data None = Inr (JArr [])"
| "load_data (Some Malformed) = Inl JSONDecodeError"
| "load_data (Some (Document v)) = Inr v"

definition save_data :: "json \<Rightarrow> file_state \<Rightarrow> file_state" where
  "save_data data fs = Some (Document data)"

subsection \<open>The Python operations the handlers use\<close>

text \<open>\<^verbatim>\<open>len(data)\<close>: defined on lists, dicts and strings, a TypeError elsewhere.\<close>

fun py_len :: "json \<Rightarrow> error + nat" where
  "py_len (JArr xs) = Inr (length xs)"
| "py_len (JObj kvs) = Inr (length kvs)"
| "py_len (JStr s) = Inr (length s)"
| "py_len _ = Inl TypeError"

text \<open>
  The chained comparison \<^verbatim>\<open>0 <= index < len(data)\<close>: \<^verbatim>\<open>len(data)\<close> is evaluated only
  when \<^verbatim>\<open>0 <= index\<close> holds.
\<close>

definition in_range :: "int \<Rightarrow> json \<Rightarrow> error + bool" where
  "in_range index data =
     (if 0 \<le> index then
        (case py_len data of Inl e \<Rightarrow> Inl e | Inr n \<Rightarrow> Inr (index < int n))
      else Inr False)"

text \<open>
  The place an integer index names in a sequence of the given length: from the front
  when it is not negative, from the end when it is; none when it falls outside.
\<close>

definition position :: "nat \<Rightarrow> int \<Rightarrow> nat option" where
  "position len i =
     (if 0 \<le> i \<and> i < int len then Some (nat i)
      else if i < 0 \<and> - int len \<le> i then Some (nat (int len + i))
      else None)"

text \<open>\<^verbatim>\<open>data.append(x)\<close>: only a list has the method.\<close>

fun py_append :: "json \<Rightarrow> json \<Rightarrow> error + json" where
  "py_append (JArr xs) x = Inr (JArr (xs @ [x]))"
| "py_append _ x = Inl AttributeError"

text \<open>
  \<^verbatim>\<open>data.pop(index)\<close>: a list removes the element at the index (a negative index counts
  from the end); a dict has no integer key; nothing else has the method.
\<close>

fun py_pop :: "json \<Rightarrow> int \<Rightarrow> error + json" where
  "py_pop (JArr xs) i =
     (case position (length xs) i of
        None \<Rightarrow> Inl IndexError
      | Some p \<Rightarrow> Inr (JArr (take p xs @ drop (Suc p) xs)))"
| "py_pop (JObj kvs) i = Inl KeyError"
| "py_pop _ i = Inl AttributeError"

text \<open>\<^verbatim>\<open>d[key] = value\<close> on one value: a dict keeps the key's place or adds it last.\<close>

fun py_setitem :: "json \<Rightarrow> string \<Rightarrow> json \<Rightarrow> error + json" where
  "py_setitem (JObj kvs) k v = Inr (JObj (AList.update k v kvs))"
| "py_setitem _ k v = Inl TypeError"

text \<open>
  \<^verbatim>\<open>data[index][key] = value\<close>: the element of a list is the dict object itself, so the
  assignment changes the list's element; an element of a string is a new string, which
  takes no assignment; a dict has no integer key.
\<close>

fun py_setitem_at :: "json \<Rightarrow> int \<Rightarrow> string \<Rightarrow> json \<Rightarrow> error + json" where
  "py_setitem_at (JArr xs) i k v =
     (case position (length xs) i of
        None \<Rightarrow> Inl IndexError
      | Some p \<Rightarrow>
          (case py_setitem (xs ! p) k v of
             Inl e \<Rightarrow> Inl e
           | Inr x \<Rightarrow> Inr (JArr (xs[p := x]))))"
| "py_setitem_at (JStr s) i k v =
     (case position (length s) i of
        None \<Rightarrow> Inl IndexError
      | Some p \<Rightarrow> Inl TypeError)"
| "py_setitem_at (JObj kvs) i k v = Inl KeyError"
| "py_setitem_at _ i k v = Inl TypeError"

text \<open>\<^verbatim>\<open>item.get(key, default)\<close>: only a dict has the method.\<close>

definition dict_get :: "(string \<times> json) list \<Rightarrow> string \<Rightarrow> json \<Rightarrow> json" where
  "dict_get kvs k d = (case map_of kvs k of None \<Rightarrow> d | Some v \<Rightarrow> v)"

fun py_get :: "json \<Rightarrow> string \<Rightarrow> json \<Rightarrow> error + json" where
  "py_get (JObj kvs) k d = Inr (dict_get kvs k d)"
| "py_get _ k d = Inl AttributeError"

text \<open>
  Iterating \<^verbatim>\<open>data\<close>: a list gives its elements, a dict its keys, a string its
  characters; nothing else is iterable.
\<close>

fun py_iter :: "json \<Rightarrow> error + json list" where
  "py_iter (JArr xs) = Inr xs"
| "py_iter (JObj kvs) = Inr (map (\<lambda>kv. JStr (fst kv)) kvs)"
| "py_iter (JStr s) = Inr (map (\<lambda>c. JStr [c]) s)"
| "py_iter _ = Inl TypeError"

text \<open>
  \<^verbatim>\<open>str.strip()\<close>: leading and trailing whitespace removed. A character of a
  string here is a code point below 256; those that Python counts as whitespace are 9
  to 13, 28 to 32, 133 and 160.
\<close>

definition is_space :: "char \<Rightarrow> bool" where
  "is_space c =
     (let n = (of_char c :: nat)
      in (9 \<le> n \<and> n \<le> 13) \<or> (28 \<le> n \<and> n \<le> 32) \<or> n = 133 \<or> n = 160)"

definition py_strip :: "string \<Rightarrow> string" where
  "py_strip s = rev (dropWhile is_space (rev (dropWhile is_space s)))"

subsection \<open>Requests and responses\<close>

record request =
  req_method :: string
  req_form :: "string \<rightharpoonup> string"

datatype response =
    Redirect string
  | Render string "json list"

text \<open>
  \<^verbatim>\<open>url_for\<close> on the endpoints whose routes take no argument, by the routes declared.
  The handlers ask for \<^verbatim>\<open>wishlist\<close> and \<^verbatim>\<open>public_view\<close> only.
\<close>

definition url_for :: "string \<Rightarrow> string" where
  "url_for endpoint =
     (if endpoint = ''wishlist'' then ''/''
      else if endpoint = ''wishlist_page'' then ''/wishlist''
      else if endpoint = ''add_page'' then ''/add''
      else if endpoint = ''public_view'' then ''/public''
      else [])"

type_synonym outcome = "(error + response) \<times> file_state"

subsection \<open>The views\<close>

text \<open>The dict built for one item in the loop of \<^verbatim>\<open>wishlist\<close> and of \<^verbatim>\<open>public_view\<close>.\<close>

definition view_item :: "nat \<Rightarrow> json \<Rightarrow> error + json" where
  "view_item idx item =
     (case py_get item ''name'' (JStr ''-'') of Inl e \<Rightarrow> Inl e | Inr name \<Rightarrow>
      case py_get item ''brand'' (JStr '''') of Inl e \<Rightarrow> Inl e | Inr brand \<Rightarrow>
      case py_get item ''link'' (JStr '''') of Inl e \<Rightarrow> Inl e | Inr link \<Rightarrow>
      case py_get item ''notes'' (JStr '''') of Inl e \<Rightarrow> Inl e | Inr notes \<Rightarrow>
      case py_get item ''image'' JNull of Inl e \<Rightarrow> Inl e | Inr img \<Rightarrow>
      case py_get item ''purchased'' (JBool False) of Inl e \<Rightarrow> Inl e | Inr purchased \<Rightarrow>
        Inr (JObj [(''index'', JInt (int idx)),
                   (''name'', name),
                   (''brand'', brand),
                   (''link'', link),
                   (''notes'', notes),
                   (''image'', img),
                   (''purchased'', purchased)]))"

text \<open>
  The loop \<^verbatim>\<open>for idx, item in enumerate(data): items.append({...})\<close>, with the running
  index and the list built so far.
\<close>

fun view_loop :: "nat \<Rightarrow> json list \<Rightarrow> json list \<Rightarrow> error + json list" where
  "view_loop idx [] items = Inr items"
| "view_loop idx (item # rest) items =
     (case view_item idx item of
        Inl e \<Rightarrow> Inl e
      | Inr v \<Rightarrow> view_loop (Suc idx) rest (items @ [v]))"

definition view_items :: "json \<Rightarrow> error + json list" where
  "view_items data =
     (case py_iter data of Inl e \<Rightarrow> Inl e | Inr xs \<Rightarrow> view_loop 0 xs [])"

subsection \<open>The routes\<close>

text \<open>
  The item the POST handler builds. \<open>now\<close> is \<^verbatim>\<open>datetime.now().isoformat()\<close> at the
  time of the request.
\<close>

definition new_item :: "string \<Rightarrow> string \<Rightarrow> string \<Rightarrow> string \<Rightarrow> string \<Rightarrow> json" where
  "new_item name link notes image_url now =
     (let img = (if image_url = [] then JNull else JStr image_url)
      in JObj [(''name'', JStr name),
               (''link'', JStr link),
               (''notes'', JStr notes),
               (''image'', img),
               (''purchased'', JBool False),
               (''created_at'', JStr now)])"

definition wishlist :: "request \<Rightarrow> string \<Rightarrow> file_state \<Rightarrow> outcome" where
  "wishlist req now fs =
     (case load_data fs of Inl e \<Rightarrow> (Inl e, fs) | Inr data \<Rightarrow>
      if req_method req = ''POST'' then
        (case req_form req ''name'' of None \<Rightarrow> (Inl BadRequestKeyError, fs) | Some name \<Rightarrow>
         case req_form req ''link'' of None \<Rightarrow> (Inl BadRequestKeyError, fs) | Some link \<Rightarrow>
         case req_form req ''notes'' of None \<Rightarrow> (Inl BadRequestKeyError, fs) | Some notes \<Rightarrow>
           let image_url =
                 py_strip (case req_form req ''image_url'' of None \<Rightarrow> [] | Some s \<Rightarrow> s)
           in case py_append data (new_item name link notes image_url now) of
                Inl e \<Rightarrow> (Inl e, fs)
              | Inr data' \<Rightarrow> (Inr (Redirect (url_for ''wishlist'')), save_data data' fs))
      else
        (case view_items data of
           Inl e \<Rightarrow> (Inl e, fs)
         | Inr items \<Rightarrow> (Inr (Render ''wishlist.html'' items), fs)))"

definition delete_item :: "int \<Rightarrow> file_state \<Rightarrow> outcome" where
  "delete_item index fs =
     (case load_data fs of Inl e \<Rightarrow> (Inl e, fs) | Inr data \<Rightarrow>
      case in_range index data of Inl e \<Rightarrow> (Inl e, fs) | Inr ok \<Rightarrow>
      if ok then
        (case py_pop data index of
           Inl e \<Rightarrow> (Inl e, fs)
         | Inr data' \<Rightarrow> (Inr (Redirect (url_for ''wishlist'')), save_data data' fs))
      else (Inr (Redirect (url_for ''wishlist'')), fs))"

definition wishlist_page :: "file_state \<Rightarrow> outcome" where
  "wishlist_page fs = (Inr (Redirect (url_for ''wishlist'')), fs)"

definition add_page :: "file_state \<Rightarrow> outcome" where
  "add_page fs = (Inr (Redirect (url_for ''wishlist'')), fs)"

definition public_view :: "file_state \<Rightarrow> outcome" where
  "public_view fs =
     (case load_data fs of Inl e \<Rightarrow> (Inl e, fs) | Inr data \<Rightarrow>
      case view_items data of
        Inl e \<Rightarrow> (Inl e, fs)
      | Inr items \<Rightarrow> (Inr (Render ''public_list.html'' items), fs))"

definition reserve_item :: "int \<Rightarrow> file_state \<Rightarrow> outcome" where
  "reserve_item index fs =
     (case load_data fs of Inl e \<Rightarrow> (Inl e, fs) | Inr data \<Rightarrow>
      case in_range index data of Inl e \<Rightarrow> (Inl e, fs) | Inr ok \<Rightarrow>
      if ok then
        (case py_setitem_at data index ''purchased'' (JBool True) of
           Inl e \<Rightarrow> (Inl e, fs)
         | Inr data' \<Rightarrow> (Inr (Redirect (url_for ''public_view'')), save_data data' fs))
      else (Inr (Redirect (url_for ''public_view'')), fs))"

definition unreserve_item :: "int \<Rightarrow> file_state \<Rightarrow> outcome" where
  "unreserve_item index fs =
     (case load_data fs of Inl e \<Rightarrow> (Inl e, fs) | Inr data \<Rightarrow>
      case in_range index data of Inl e \<Rightarrow> (Inl e, fs) | Inr ok \<Rightarrow>
      if ok then
        (case py_setitem_at data index ''purchased'' (JBool False) of
           Inl e \<Rightarrow> (Inl e, fs)
         | Inr data' \<Rightarrow> (Inr (Redirect (url_for ''public_view'')), save_data data' fs))
      else (Inr (Redirect (url_for ''public_view'')), fs))"

subsection \<open>Stores of items\<close>

text \<open>An item is a dict; a store of items is a file that is absent or holds a list of dicts.\<close>

fun is_item :: "json \<Rightarrow> bool" where
  "is_item (JObj kvs) = True"
| "is_item _ = False"

fun field :: "string \<Rightarrow> json \<Rightarrow> json option" where
  "field k (JObj kvs) = map_of kvs k"
| "field k _ = None"

text \<open>An item without one of its keys, to compare items up to that key.\<close>

fun drop_field :: "string \<Rightarrow> json \<Rightarrow> json" where
  "drop_field k (JObj kvs) = JObj (AList.delete k kvs)"
| "drop_field k v = v"

subsection \<open>The file as text\<close>

text \<open>
  \<^verbatim>\<open>save_data\<close> writes the file with \<^verbatim>\<open>json.dump(data, f)\<close> and \<^verbatim>\<open>load_data\<close> reads it
  with \<^verbatim>\<open>json.load(f)\<close>. Both belong to Python's standard library, not to this
  repository; the definitions of this section are modelled from the standard library's
  documented behaviour with the default options the program uses, not from
  \<^verbatim>\<open>app.py\<close>. They give the text of the file, so that what \<^verbatim>\<open>load_data\<close> reads after
  \<^verbatim>\<open>save_data\<close> is computed from the characters written, not assumed.

  A character is a code point below 256 and a string is a list of them. Integers
  are unbounded; the interpreter's limits (4300 digits for the decimal text of an
  integer, the recursion depth, memory) are no branch of the model, and floats are
  kept as their text, so that the float arithmetic of \<^verbatim>\<open>repr\<close> and \<^verbatim>\<open>float\<close> is outside it.
\<close>

paragraph \<open>Characters\<close>

text \<open>The double quote and the backslash, the digits, and the hexadecimal digits.\<close>

definition dquote :: char where
  "dquote = CHR 0x22"

definition backslash :: char where
  "backslash = CHR 0x5C"

definition is_digit :: "char \<Rightarrow> bool" where
  "is_digit c = (48 \<le> (of_char c :: nat) \<and> (of_char c :: nat) \<le> 57)"

definition digit_char :: "nat \<Rightarrow> char" where
  "digit_char n = char_of (48 + n)"

definition digit_val :: "char \<Rightarrow> nat" where
  "digit_val c = of_char c - 48"

definition hex_char :: "nat \<Rightarrow> char" where
  "hex_char n = (if n < 10 then char_of (48 + n) else char_of (87 + n))"

definition hex_val :: "char \<Rightarrow> nat option" where
  "hex_val c =
     (let n = (of_char c :: nat)
      in if 48 \<le> n \<and> n \<le> 57 then Some (n - 48)
         else if 97 \<le> n \<and> n \<le> 102 then Some (n - 87)
         else if 65 \<le> n \<and> n \<le> 70 then Some (n - 55)
         else None)"

paragraph \<open>json.dump\<close>

text \<open>
  The defaults: \<^verbatim>\<open>ensure_ascii=True\<close>, so that inside a string the quote and the
  backslash are written after a backslash, backspace, form feed, newline, carriage
  return and tab as a backslash and the letter b, f, n, r or t, the other printable
  ASCII characters 0x20 to 0x7E as they are, and every other character as a
  backslash, the letter u, two zeros and its two lower-case hexadecimal digits; the
  separators are a comma and a space between elements and a colon and a space after
  a key; no indentation; dict keys in insertion order. An integer is written in
  decimal, with a minus sign when negative.
\<close>

fun digits :: "nat \<Rightarrow> string" where
  "digits n = (if n < 10 then [digit_char n] else digits (n div 10) @ [digit_char (n mod 10)])"

declare digits.simps [simp del]

definition encode_int :: "int \<Rightarrow> string" where
  "encode_int i = (if i < 0 then CHR ''-'' # digits (nat (- i)) else digits (nat i))"

definition escape :: "char \<Rightarrow> string" where
  "escape c =
     (let n = (of_char c :: nat)
      in if c = dquote then [backslash, dquote]
         else if c = backslash then [backslash, backslash]
         else if n = 10 then [backslash, CHR ''n'']
         else if n = 13 then [backslash, CHR ''r'']
         else if n = 9 then [backslash, CHR ''t'']
         else if n = 8 then [backslash, CHR ''b'']
         else if n = 12 then [backslash, CHR ''f'']
         else if 32 \<le> n \<and> n \<le> 126 then [c]
         else [backslash, CHR ''u'', CHR ''0'', CHR ''0'', hex_char (n div 16), hex_char (n mod 16)])"

definition encode_string :: "string \<Rightarrow> string" where
  "encode_string s = dquote # concat (map escape s) @ [dquote]"

fun join :: "string \<Rightarrow> string list \<Rightarrow> string" where
  "join sep [] = []"
| "join sep [x] = x"
| "join sep (x # y # ys) = x @ sep @ join sep (y # ys)"

fun json_dumps :: "json \<Rightarrow> string" where
  "json_dumps JNull = ''null''"
| "json_dumps (JBool b) = (if b then ''true'' else ''false'')"
| "json_dumps (JInt i) = encode_int i"
| "json_dumps (JFloat t) = t"
| "json_dumps (JStr s) = encode_string s"
| "json_dumps (JArr xs) = ''['' @ join '', '' (map json_dumps xs) @ '']''"
| "json_dumps (JObj kvs) =
     ''{'' @ join '', '' (map (\<lambda>(k, v). encode_string k @ '': '' @ json_dumps v) kvs) @ ''}''"

paragraph \<open>json.load\<close>

text \<open>
  The decoder of the standard library: white space is space, tab, newline and
  carriage return. A string ends at the first quote that no backslash precedes; a
  control character below 0x20 inside it is an error; after a backslash come a quote,
  a backslash, a slash, one of the letters b, f, n, r, t, or the letter u and four
  hexadecimal digits of either case (a code point of 256 or more has no character
  here and is refused). A number is an optional minus sign, then
  \<^verbatim>\<open>0\<close> or a non-zero digit followed by digits, then an optional fraction and an
  optional exponent; without fraction and exponent it is an integer, otherwise a
  float, kept as its text. The literals are tried in the decoder's order: \<^verbatim>\<open>null\<close>,
  \<^verbatim>\<open>true\<close>, \<^verbatim>\<open>false\<close>, a number, \<^verbatim>\<open>NaN\<close>, \<^verbatim>\<open>Infinity\<close>, \<^verbatim>\<open>-Infinity\<close>.
  In an object a repeated key keeps its first place and takes its last value, as
  assignment to a Python dict does. Text after the value, other than white space, is
  an error.

  The decoder recurses on the nesting of the text. \<open>parse_value\<close>, \<open>parse_array\<close> and
  \<open>parse_object\<close> take fuel, one unit for each nested value and each element;
  \<open>json_loads\<close> gives them one unit more than the text has characters, and the round
  trip below shows that this is enough for every text \<open>json_dumps\<close> writes.
\<close>

definition is_ws :: "char \<Rightarrow> bool" where
  "is_ws c = (c = CHR '' '' \<or> c = CHR 0x09 \<or> c = CHR 0x0A \<or> c = CHR 0x0D)"

definition skip_ws :: "string \<Rightarrow> string" where
  "skip_ws cs = dropWhile is_ws cs"

fun strip_prefix :: "string \<Rightarrow> string \<Rightarrow> string option" where
  "strip_prefix [] cs = Some cs"
| "strip_prefix (p # ps) [] = None"
| "strip_prefix (p # ps) (c # cs) = (if p = c then strip_prefix ps cs else None)"

definition unescape :: "char \<Rightarrow> char option" where
  "unescape e =
     (if e = dquote then Some dquote
      else if e = backslash then Some backslash
      else if e = CHR ''/'' then Some (CHR ''/'')
      else if e = CHR ''b'' then Some (CHR 0x08)
      else if e = CHR ''f'' then Some (CHR 0x0C)
      else if e = CHR ''n'' then Some (CHR 0x0A)
      else if e = CHR ''r'' then Some (CHR 0x0D)
      else if e = CHR ''t'' then Some (CHR 0x09)
      else None)"

definition hex4 :: "char \<Rightarrow> char \<Rightarrow> char \<Rightarrow> char \<Rightarrow> nat option" where
  "hex4 a b c d =
     (case (hex_val a, hex_val b, hex_val c, hex_val d) of
        (Some p, Some q, Some r, Some s) \<Rightarrow> Some (((p * 16 + q) * 16 + r) * 16 + s)
      | _ \<Rightarrow> None)"

definition cons_result :: "char \<Rightarrow> (string \<times> string) option \<Rightarrow> (string \<times> string) option" where
  "cons_result c res = (case res of None \<Rightarrow> None | Some (s, rest) \<Rightarrow> Some (c # s, rest))"

fun scan_string :: "string \<Rightarrow> (string \<times> string) option" where
  "scan_string [] = None"
| "scan_string (c # cs) =
     (if c = dquote then Some ([], cs)
      else if c = backslash then
        (case cs of
           [] \<Rightarrow> None
         | e # r \<Rightarrow>
             if e = CHR ''u'' then
               (case r of
                  h1 # h2 # h3 # h4 # r' \<Rightarrow>
                    (case hex4 h1 h2 h3 h4 of
                       None \<Rightarrow> None
                     | Some n \<Rightarrow> if n < 256 then cons_result (char_of n) (scan_string r') else None)
                | _ \<Rightarrow> None)
             else
               (case unescape e of
                  None \<Rightarrow> None
                | Some x \<Rightarrow> cons_result x (scan_string r)))
      else if (of_char c :: nat) < 32 then None
      else cons_result c (scan_string cs))"

definition nat_of_digits :: "string \<Rightarrow> nat" where
  "nat_of_digits ds = foldl (\<lambda>a c. 10 * a + digit_val c) 0 ds"

definition scan_sign :: "string \<Rightarrow> string \<times> string" where
  "scan_sign cs =
     (case cs of
        [] \<Rightarrow> ([], cs)
      | c # r \<Rightarrow> if c = CHR ''-'' then ([c], r) else ([], cs))"

definition scan_int_part :: "string \<Rightarrow> (string \<times> string) option" where
  "scan_int_part cs =
     (case cs of
        [] \<Rightarrow> None
      | c # r \<Rightarrow>
          if c = CHR ''0'' then Some ([c], r)
          else if is_digit c then Some (takeWhile is_digit cs, dropWhile is_digit cs)
          else None)"

definition scan_frac :: "string \<Rightarrow> string \<times> string" where
  "scan_frac cs =
     (case cs of
        c # d # r \<Rightarrow>
          if c = CHR ''.'' \<and> is_digit d
          then (c # takeWhile is_digit (d # r), dropWhile is_digit (d # r))
          else ([], cs)
      | _ \<Rightarrow> ([], cs))"

definition scan_exp :: "string \<Rightarrow> string \<times> string" where
  "scan_exp cs =
     (case cs of
        [] \<Rightarrow> ([], cs)
      | e # r \<Rightarrow>
          if e = CHR ''e'' \<or> e = CHR ''E'' then
            (let (sg, r1) =
                   (case r of
                      [] \<Rightarrow> ([], r)
                    | s # r2 \<Rightarrow> if s = CHR ''+'' \<or> s = CHR ''-'' then ([s], r2) else ([], r))
             in case r1 of
                  [] \<Rightarrow> ([], cs)
                | d # _ \<Rightarrow>
                    if is_digit d
                    then (e # sg @ takeWhile is_digit r1, dropWhile is_digit r1)
                    else ([], cs))
          else ([], cs))"

definition scan_number :: "string \<Rightarrow> (json \<times> string) option" where
  "scan_number cs =
     (let (sg, r0) = scan_sign cs
      in case scan_int_part r0 of
           None \<Rightarrow> None
         | Some (ip, r1) \<Rightarrow>
             let (fr, r2) = scan_frac r1;
                 (ex, r3) = scan_exp r2
             in if fr = [] \<and> ex = []
                then Some (JInt (if sg = [] then int (nat_of_digits ip)
                                 else - int (nat_of_digits ip)), r3)
                else Some (JFloat (sg @ ip @ fr @ ex), r3))"

definition scan_atom :: "string \<Rightarrow> (json \<times> string) option" where
  "scan_atom cs =
     (case strip_prefix ''null'' cs of Some r \<Rightarrow> Some (JNull, r) | None \<Rightarrow>
      case strip_prefix ''true'' cs of Some r \<Rightarrow> Some (JBool True, r) | None \<Rightarrow>
      case strip_prefix ''false'' cs of Some r \<Rightarrow> Some (JBool False, r) | None \<Rightarrow>
      case scan_number cs of Some res \<Rightarrow> Some res | None \<Rightarrow>
      case strip_prefix ''NaN'' cs of Some r \<Rightarrow> Some (JFloat ''NaN'', r) | None \<Rightarrow>
      case strip_prefix ''Infinity'' cs of Some r \<Rightarrow> Some (JFloat ''Infinity'', r) | None \<Rightarrow>
      case strip_prefix ''-Infinity'' cs of Some r \<Rightarrow> Some (JFloat ''-Infinity'', r) | None \<Rightarrow>
        None)"

fun parse_value :: "nat \<Rightarrow> string \<Rightarrow> (json \<times> string) option"
  and parse_array :: "nat \<Rightarrow> json list \<Rightarrow> string \<Rightarrow> (json \<times> string) option"
  and parse_object :: "nat \<Rightarrow> (string \<times> json) list \<Rightarrow> string \<Rightarrow> (json \<times> string) option"
where
  "parse_value 0 cs = None"
| "parse_value (Suc n) [] = None"
| "parse_value (Suc n) (c # r) =
     (if c = dquote then
        (case scan_string r of None \<Rightarrow> None | Some (s, r') \<Rightarrow> Some (JStr s, r'))
      else if c = CHR ''{'' then
        (case skip_ws r of
           [] \<Rightarrow> None
         | d # r' \<Rightarrow> if d = CHR ''}'' then Some (JObj [], r') else parse_object n [] (d # r'))
      else if c = CHR ''['' then
        (case skip_ws r of
           [] \<Rightarrow> None
         | d # r' \<Rightarrow> if d = CHR '']'' then Some (JArr [], r') else parse_array n [] (d # r'))
      else scan_atom (c # r))"
| "parse_array 0 acc cs = None"
| "parse_array (Suc n) acc cs =
     (case parse_value n cs of
        None \<Rightarrow> None
      | Some (v, r) \<Rightarrow>
          (case skip_ws r of
             [] \<Rightarrow> None
           | d # r' \<Rightarrow>
               if d = CHR '']'' then Some (JArr (acc @ [v]), r')
               else if d = CHR '','' then parse_array n (acc @ [v]) (skip_ws r')
               else None))"
| "parse_object 0 acc cs = None"
| "parse_object (Suc n) acc cs =
     (case cs of
        [] \<Rightarrow> None
      | q # r \<Rightarrow>
          if q \<noteq> dquote then None
          else
            (case scan_string r of
               None \<Rightarrow> None
             | Some (k, r1) \<Rightarrow>
                 (case skip_ws r1 of
                    [] \<Rightarrow> None
                  | col # r2 \<Rightarrow>
                      if col \<noteq> CHR '':'' then None
                      else
                        (case parse_value n (skip_ws r2) of
                           None \<Rightarrow> None
                         | Some (v, r3) \<Rightarrow>
                             (case skip_ws r3 of
                                [] \<Rightarrow> None
                              | d # r4 \<Rightarrow>
                                  if d = CHR ''}'' then Some (JObj (AList.update k v acc), r4)
                                  else if d = CHR '','' then
                                    parse_object n (AList.update k v acc) (skip_ws r4)
                                  else None)))))"

definition json_loads :: "string \<Rightarrow> error + json" where
  "json_loads t =
     (case parse_value (Suc (length t)) (skip_ws t) of
        None \<Rightarrow> Inl JSONDecodeError
      | Some (v, r) \<Rightarrow> if skip_ws r = [] then Inr v else Inl JSONDecodeError)"

paragraph \<open>load_data and save_data on the text\<close>

text \<open>
  \<^verbatim>\<open>load_data\<close> (lines 14 to 23): the empty list when the file does not exist, what
  \<^verbatim>\<open>json.load\<close> returns otherwise. \<^verbatim>\<open>save_data\<close> (lines 26 to 31): the file is opened with
  mode \<^verbatim>\<open>w\<close>, which truncates it, and \<^verbatim>\<open>json.dump\<close> writes the text of the value.
\<close>

type_synonym file_text = "string option"

definition load_data_text :: "file_text \<Rightarrow> error + json" where
  "load_data_text d = (case d of None \<Rightarrow> Inr (JArr []) | Some t \<Rightarrow> json_loads t)"


text \<open>
  The file state of the sections above is the text of the file read through the
  decoder: absent, text the decoder rejects, or the value it returns.
\<close>

definition decoded :: "file_text \<Rightarrow> file_state" where
  "decoded d =
     (case d of
        None \<Rightarrow> None
      | Some t \<Rightarrow> (case json_loads t of Inl e \<Rightarrow> Some Malformed | Inr v \<Rightarrow> Some (Document v)))"


text \<open>
  Three notions for the proof of the round trip: the text written for one key and
  its value, a rest of the text that starts with a separator or a closing bracket
  (or is empty), and a text whose first character starts a value.
\<close>

definition encode_pair :: "string \<times> json \<Rightarrow> string" where
  "encode_pair p = encode_string (fst p) @ '': '' @ json_dumps (snd p)"



section \<open>Properties\<close>

subsection \<open>Auxiliary facts about the handlers\<close>

lemma url_wishlist: "url_for ''wishlist'' = ''/''"
  by (simp add: url_for_def)

lemma url_public: "url_for ''public_view'' = ''/public''"
  by (simp add: url_for_def)

lemma in_range_arr: "in_range i (JArr xs) = Inr (0 \<le> i \<and> i < int (length xs))"
  by (simp add: in_range_def)

lemma position_in: "0 \<le> i \<Longrightarrow> i < int len \<Longrightarrow> position len i = Some (nat i)"
  by (simp add: position_def)

lemma py_pop_in:
  "0 \<le> i \<Longrightarrow> i < int (length xs) \<Longrightarrow>
     py_pop (JArr xs) i = Inr (JArr (take (nat i) xs @ drop (Suc (nat i)) xs))"
  by (simp add: position_in)

lemma delete_in:
  assumes "load_data fs = Inr (JArr xs)" "0 \<le> i" "i < int (length xs)"
  shows "delete_item i fs = (Inr (Redirect ''/''), Some (Document (JArr (take (nat i) xs @ drop (Suc (nat i)) xs))))"
  using assms by (simp add: delete_item_def in_range_arr position_in url_wishlist save_data_def)

lemma delete_out:
  assumes "load_data fs = Inr (JArr xs)" "\<not> (0 \<le> i \<and> i < int (length xs))"
  shows "delete_item i fs = (Inr (Redirect ''/''), fs)"
  using assms by (auto simp add: delete_item_def in_range_arr url_wishlist)

lemma is_item_iff: "is_item x \<longleftrightarrow> (\<exists>kvs. x = JObj kvs)"
  by (cases x) simp_all

lemma py_setitem_at_in:
  assumes "0 \<le> i" "i < int (length xs)" "xs ! nat i = JObj kvs"
  shows "py_setitem_at (JArr xs) i k v = Inr (JArr (xs[nat i := JObj (AList.update k v kvs)]))"
  using assms by (simp add: position_in)

lemma py_setitem_at_not_item:
  assumes "0 \<le> i" "i < int (length xs)" "\<not> is_item (xs ! nat i)"
  shows "py_setitem_at (JArr xs) i k v = Inl TypeError"
  using assms by (cases "xs ! nat i") (simp_all add: position_in)

lemma reserve_in:
  assumes "load_data fs = Inr (JArr xs)" "0 \<le> i" "i < int (length xs)" "xs ! nat i = JObj kvs"
  shows "reserve_item i fs = (Inr (Redirect ''/public''),
           Some (Document (JArr (xs[nat i := JObj (AList.update ''purchased'' (JBool True) kvs)]))))"
  using assms by (simp add: reserve_item_def in_range_arr position_in url_public save_data_def)

lemma unreserve_in:
  assumes "load_data fs = Inr (JArr xs)" "0 \<le> i" "i < int (length xs)" "xs ! nat i = JObj kvs"
  shows "unreserve_item i fs = (Inr (Redirect ''/public''),
           Some (Document (JArr (xs[nat i := JObj (AList.update ''purchased'' (JBool False) kvs)]))))"
  using assms by (simp add: unreserve_item_def in_range_arr position_in url_public save_data_def)

lemma reserve_out:
  assumes "load_data fs = Inr (JArr xs)" "\<not> (0 \<le> i \<and> i < int (length xs))"
  shows "reserve_item i fs = (Inr (Redirect ''/public''), fs)"
  using assms by (auto simp add: reserve_item_def in_range_arr url_public)

lemma unreserve_out:
  assumes "load_data fs = Inr (JArr xs)" "\<not> (0 \<le> i \<and> i < int (length xs))"
  shows "unreserve_item i fs = (Inr (Redirect ''/public''), fs)"
  using assms by (auto simp add: unreserve_item_def in_range_arr url_public)

lemma reserve_not_item:
  assumes "load_data fs = Inr (JArr xs)" "0 \<le> i" "i < int (length xs)" "\<not> is_item (xs ! nat i)"
  shows "reserve_item i fs = (Inl TypeError, fs)"
  using assms by (simp add: reserve_item_def in_range_arr py_setitem_at_not_item del: py_setitem_at.simps)

lemma unreserve_not_item:
  assumes "load_data fs = Inr (JArr xs)" "0 \<le> i" "i < int (length xs)" "\<not> is_item (xs ! nat i)"
  shows "unreserve_item i fs = (Inl TypeError, fs)"
  using assms by (simp add: unreserve_item_def in_range_arr py_setitem_at_not_item del: py_setitem_at.simps)

lemma post_ok:
  assumes "load_data fs = Inr (JArr xs)" "req_method req = ''POST''"
    "req_form req ''name'' = Some name" "req_form req ''link'' = Some link"
    "req_form req ''notes'' = Some notes"
  shows "wishlist req now fs = (Inr (Redirect ''/''),
           Some (Document (JArr (xs @ [new_item name link notes
              (py_strip (case req_form req ''image_url'' of None \<Rightarrow> [] | Some s \<Rightarrow> s)) now]))))"
  using assms by (simp add: wishlist_def url_wishlist save_data_def)

lemma nths_remove: "i < length xs \<Longrightarrow> take i xs @ drop (Suc i) xs = nths xs (- {i})"
proof -
  assume i: "i < length xs"
  have xs: "xs = take i xs @ xs ! i # drop (Suc i) xs"
    using i by (simp add: id_take_nth_drop)
  have a: "nths (take i xs) (- {i}) = take i xs"
    by (rule nths_all) (use i in auto)
  have b: "nths (drop (Suc i) xs) {j. Suc j + length (take i xs) \<in> - {i}} = drop (Suc i) xs"
    by (rule nths_all) (use i in auto)
  have "nths xs (- {i}) = nths (take i xs @ xs ! i # drop (Suc i) xs) (- {i})"
    using xs by simp
  also have "\<dots> = take i xs @ drop (Suc i) xs"
    unfolding nths_append nths_Cons using a b i by simp
  finally show ?thesis by simp
qed

lemma view_items_empty: "view_items (JArr []) = Inr []"
  by (simp add: view_items_def)

lemma py_strip_empty: "py_strip [] = []"
  by (simp add: py_strip_def)

lemma field_after_update:
  "key \<noteq> k \<Longrightarrow> field key (JObj (AList.update k v kvs)) = field key (JObj kvs)"
  by (simp add: update_conv')

lemma set_flag_frame:
  assumes n: "n < length xs" and kvs: "xs ! n = JObj kvs"
  shows "length (xs[n := JObj (AList.update ''purchased'' v kvs)]) = length xs
       \<and> (\<forall>k. k < length xs \<and> k \<noteq> n \<longrightarrow>
             xs[n := JObj (AList.update ''purchased'' v kvs)] ! k = xs ! k)
       \<and> (\<forall>key. key \<noteq> ''purchased'' \<longrightarrow>
             field key (xs[n := JObj (AList.update ''purchased'' v kvs)] ! n) = field key (xs ! n))
       \<and> is_item (xs[n := JObj (AList.update ''purchased'' v kvs)] ! n)"
  using n kvs by (simp add: update_conv')

lemma drop_field_set_flag:
  assumes "n < length xs" and "xs ! n = JObj kvs"
  shows "map (drop_field k) (xs[n := JObj (AList.update k v kvs)]) = map (drop_field k) xs"
proof -
  have "drop_field k (JObj (AList.update k v kvs)) = drop_field k (xs ! n)"
    using assms(2) by (simp add: delete_update_same)
  then have "map (drop_field k) (xs[n := JObj (AList.update k v kvs)])
      = (map (drop_field k) xs)[n := map (drop_field k) xs ! n]"
    using assms(1) by (simp add: map_update)
  then show ?thesis by simp
qed

lemma wishlist_keeps_file:
  assumes "req_method req \<noteq> ''POST'' \<or> req_form req ''name'' = None
         \<or> req_form req ''link'' = None \<or> req_form req ''notes'' = None"
  shows "snd (wishlist req now fs) = fs"
  using assms
  by (auto simp: wishlist_def split: option.splits sum.splits)

lemma public_view_state: "snd (public_view fs) = fs"
  by (auto simp: public_view_def split: sum.splits)

lemma reserve_state:
  assumes "load_data fs = Inr (JArr xs)"
  shows "\<exists>ys. load_data (snd (reserve_item i fs)) = Inr (JArr ys)
          \<and> map (drop_field ''purchased'') ys = map (drop_field ''purchased'') xs"
proof (cases "0 \<le> i \<and> i < int (length xs)")
  case False
  with assms show ?thesis by (simp add: reserve_out)
next
  case True
  then have n: "nat i < length xs" by (simp add: nat_less_iff)
  show ?thesis
  proof (cases "is_item (xs ! nat i)")
    case False
    with assms True show ?thesis by (simp add: reserve_not_item)
  next
    case item: True
    then obtain kvs where kvs: "xs ! nat i = JObj kvs" by (auto simp: is_item_iff)
    from True have "0 \<le> i" "i < int (length xs)" by simp_all
    from reserve_in [OF assms this kvs] drop_field_set_flag [OF n kvs]
    show ?thesis by simp
  qed
qed

lemma unreserve_state:
  assumes "load_data fs = Inr (JArr xs)"
  shows "\<exists>ys. load_data (snd (unreserve_item i fs)) = Inr (JArr ys)
          \<and> map (drop_field ''purchased'') ys = map (drop_field ''purchased'') xs"
proof (cases "0 \<le> i \<and> i < int (length xs)")
  case False
  with assms show ?thesis by (simp add: unreserve_out)
next
  case True
  then have n: "nat i < length xs" by (simp add: nat_less_iff)
  show ?thesis
  proof (cases "is_item (xs ! nat i)")
    case False
    with assms True show ?thesis by (simp add: unreserve_not_item)
  next
    case item: True
    then obtain kvs where kvs: "xs ! nat i = JObj kvs" by (auto simp: is_item_iff)
    from True have "0 \<le> i" "i < int (length xs)" by simp_all
    from unreserve_in [OF assms this kvs] drop_field_set_flag [OF n kvs]
    show ?thesis by simp
  qed
qed

lemma delete_state:
  assumes "load_data fs = Inr (JArr xs)"
  shows "load_data (snd (delete_item i fs))
      = Inr (JArr (if 0 \<le> i \<and> i < int (length xs) then nths xs (- {nat i}) else xs))"
proof (cases "0 \<le> i \<and> i < int (length xs)")
  case False
  from delete_out [OF assms False] have "snd (delete_item i fs) = fs" by simp
  with assms False show ?thesis by auto
next
  case True
  then have n: "nat i < length xs" by (simp add: nat_less_iff)
  from True assms have "delete_item i fs = (Inr (Redirect ''/''),
      Some (Document (JArr (take (nat i) xs @ drop (Suc (nat i)) xs))))"
    by (simp add: delete_in)
  with True nths_remove [OF n] show ?thesis by simp
qed

lemma view_item_obj:
  "view_item idx (JObj kvs) =
     Inr (JObj [(''index'', JInt (int idx)),
                (''name'', case field ''name'' (JObj kvs) of None \<Rightarrow> JStr ''-'' | Some v \<Rightarrow> v),
                (''brand'', case field ''brand'' (JObj kvs) of None \<Rightarrow> JStr [] | Some v \<Rightarrow> v),
                (''link'', case field ''link'' (JObj kvs) of None \<Rightarrow> JStr [] | Some v \<Rightarrow> v),
                (''notes'', case field ''notes'' (JObj kvs) of None \<Rightarrow> JStr [] | Some v \<Rightarrow> v),
                (''image'', case field ''image'' (JObj kvs) of None \<Rightarrow> JNull | Some v \<Rightarrow> v),
                (''purchased'', case field ''purchased'' (JObj kvs) of None \<Rightarrow> JBool False | Some v \<Rightarrow> v)])"
  by (simp add: view_item_def dict_get_def)

lemma view_loop_items:
  "\<forall>x \<in> set xs. is_item x \<Longrightarrow>
     \<exists>vs. view_loop n xs acc = Inr (acc @ vs) \<and> length vs = length xs
        \<and> (\<forall>k. k < length xs \<longrightarrow> view_item (n + k) (xs ! k) = Inr (vs ! k))"
proof (induction xs arbitrary: n acc)
  case Nil
  then show ?case by simp
next
  case (Cons x xs)
  from Cons.prems obtain kvs where x: "x = JObj kvs" by (auto simp: is_item_iff)
  obtain v where v: "view_item n x = Inr v"
    using x view_item_obj by blast
  from Cons.prems have "\<forall>y \<in> set xs. is_item y" by simp
  from Cons.IH [OF this, of "Suc n" "acc @ [v]"]
  obtain vs where l: "view_loop (Suc n) xs (acc @ [v]) = Inr ((acc @ [v]) @ vs)"
    and len: "length vs = length xs"
    and el: "\<forall>k. k < length xs \<longrightarrow> view_item (Suc n + k) (xs ! k) = Inr (vs ! k)"
    by blast
  have a: "view_loop n (x # xs) acc = Inr (acc @ (v # vs))"
    using v l by simp
  have b: "length (v # vs) = length (x # xs)" using len by simp
  have c: "\<forall>k. k < length (x # xs) \<longrightarrow> view_item (n + k) ((x # xs) ! k) = Inr ((v # vs) ! k)"
  proof (intro allI impI)
    fix k assume k: "k < length (x # xs)"
    show "view_item (n + k) ((x # xs) ! k) = Inr ((v # vs) ! k)"
    proof (cases k)
      case 0
      with v show ?thesis by simp
    next
      case (Suc j)
      with k el show ?thesis by simp
    qed
  qed
  from a b c show ?case by blast
qed

lemma view_items_of_items:
  assumes "\<forall>x \<in> set xs. is_item x"
  shows "\<exists>vs. view_items (JArr xs) = Inr vs \<and> length vs = length xs
        \<and> (\<forall>k. k < length xs \<longrightarrow> view_item k (xs ! k) = Inr (vs ! k))"
  using view_loop_items [OF assms, of 0 "[]"] by (simp add: view_items_def)

lemma brand_drop_purchased:
  "field ''brand'' (drop_field ''purchased'' x) = field ''brand'' x"
  by (cases x) (simp_all add: delete_conv)

lemma brand_of_drop_purchased:
  assumes "map (drop_field ''purchased'') ys = map (drop_field ''purchased'') xs"
  shows "map (field ''brand'') ys = map (field ''brand'') xs"
proof -
  have "map (field ''brand'') zs = map (field ''brand'') (map (drop_field ''purchased'') zs)" for zs
    by (simp add: brand_drop_purchased)
  with assms show ?thesis by metis
qed

lemma wishlist_state_item:
  assumes "load_data fs = Inr (JArr xs)"
  shows "snd (wishlist req now fs) = fs
       \<or> (\<exists>a b c d. snd (wishlist req now fs)
             = Some (Document (JArr (xs @ [new_item a b c d now]))))"
  using assms
  by (auto simp: wishlist_def save_data_def Let_def split: option.splits sum.splits)

lemma brand_new_item: "field ''brand'' (new_item a b c d t) = None"
  by (simp add: new_item_def Let_def)

subsection \<open>Adding an item\<close>

text \<open>
  C1. A POST to \<^verbatim>\<open>/\<close> with the form fields name, link and notes, on a store that
  loads as the list \<open>xs\<close>, redirects and leaves a file that loads as \<open>xs\<close> with exactly
  one element appended last; that element has the submitted name, link and notes,
  purchased false, and created_at the time of the request.
\<close>

theorem add_appends_item:
  assumes "load_data fs = Inr (JArr xs)"
    and "req_method req = ''POST''"
    and "req_form req ''name'' = Some name"
    and "req_form req ''link'' = Some link"
    and "req_form req ''notes'' = Some notes"
  shows "\<exists>item. fst (wishlist req now fs) = Inr (Redirect ''/'')
           \<and> load_data (snd (wishlist req now fs)) = Inr (JArr (xs @ [item]))
           \<and> field ''name'' item = Some (JStr name)
           \<and> field ''link'' item = Some (JStr link)
           \<and> field ''notes'' item = Some (JStr notes)
           \<and> field ''purchased'' item = Some (JBool False)
           \<and> field ''created_at'' item = Some (JStr now)"
proof -
  let ?item = "new_item name link notes
      (py_strip (case req_form req ''image_url'' of None \<Rightarrow> [] | Some s \<Rightarrow> s)) now"
  have "wishlist req now fs = (Inr (Redirect ''/''), Some (Document (JArr (xs @ [?item]))))"
    using assms by (rule post_ok)
  moreover have "field ''name'' ?item = Some (JStr name)"
    "field ''link'' ?item = Some (JStr link)"
    "field ''notes'' ?item = Some (JStr notes)"
    "field ''purchased'' ?item = Some (JBool False)"
    "field ''created_at'' ?item = Some (JStr now)"
    by (simp_all add: new_item_def)
  ultimately show ?thesis by auto
qed

theorem add_appends_item_witness:
  "load_data (Some (Document (JArr [JInt 7]))) = Inr (JArr [JInt 7])
   \<and> req_method \<lparr>req_method = ''POST'',
        req_form = [''name'' \<mapsto> ''Socks'', ''link'' \<mapsto> ''http://s'', ''notes'' \<mapsto> ''warm'']\<rparr> = ''POST''
   \<and> (\<exists>item. load_data (snd (wishlist \<lparr>req_method = ''POST'',
        req_form = [''name'' \<mapsto> ''Socks'', ''link'' \<mapsto> ''http://s'', ''notes'' \<mapsto> ''warm'']\<rparr>
          ''2024-12-01T10:00:00'' (Some (Document (JArr [JInt 7]))))) = Inr (JArr ([JInt 7] @ [item]))
        \<and> field ''name'' item = Some (JStr ''Socks'')
        \<and> field ''purchased'' item = Some (JBool False)
        \<and> field ''created_at'' item = Some (JStr ''2024-12-01T10:00:00''))"
proof -
  let ?req = "\<lparr>req_method = ''POST'',
        req_form = [''name'' \<mapsto> ''Socks'', ''link'' \<mapsto> ''http://s'', ''notes'' \<mapsto> ''warm'']\<rparr>"
  let ?fs = "Some (Document (JArr [JInt 7]))"
  have h1: "load_data ?fs = Inr (JArr [JInt 7])" by simp
  have h2: "req_method ?req = ''POST''" by simp
  have h3: "req_form ?req ''name'' = Some ''Socks''" by simp
  have h4: "req_form ?req ''link'' = Some ''http://s''" by simp
  have h5: "req_form ?req ''notes'' = Some ''warm''" by simp
  from add_appends_item [OF h1 h2 h3 h4 h5, of "''2024-12-01T10:00:00''"]
  show ?thesis using h1 h2 by blast
qed

subsection \<open>Deleting by index\<close>

text \<open>
  C2. On a store that loads as the list \<open>xs\<close>, \<^verbatim>\<open>/delete/<index>\<close> with
  \<open>0 \<le> index < length xs\<close> leaves a list one shorter, in which every element before
  the index keeps its place and every later element has moved down by one; with any
  other index it leaves the file as it was. Both redirect to the owner view.
\<close>

theorem delete_removes_index:
  assumes "load_data fs = Inr (JArr xs)"
  shows "(0 \<le> i \<and> i < int (length xs) \<longrightarrow>
           (\<exists>ys. delete_item i fs = (Inr (Redirect ''/''), Some (Document (JArr ys)))
              \<and> length ys = length xs - 1
              \<and> (\<forall>k. k < nat i \<longrightarrow> ys ! k = xs ! k)
              \<and> (\<forall>k. nat i \<le> k \<and> k < length ys \<longrightarrow> ys ! k = xs ! Suc k)))
       \<and> (\<not> (0 \<le> i \<and> i < int (length xs)) \<longrightarrow>
            delete_item i fs = (Inr (Redirect ''/''), fs))"
proof (intro conjI impI)
  assume r: "0 \<le> i \<and> i < int (length xs)"
  let ?ys = "take (nat i) xs @ drop (Suc (nat i)) xs"
  from r have n: "nat i < length xs" by (simp add: nat_less_iff)
  have d: "delete_item i fs = (Inr (Redirect ''/''), Some (Document (JArr ?ys)))"
    using assms r by (simp add: delete_in)
  have l: "length ?ys = length xs - 1"
    using n by simp
  have e: "\<forall>k. k < nat i \<longrightarrow> ?ys ! k = xs ! k"
    using n by (simp add: nth_append)
  have s: "\<forall>k. nat i \<le> k \<and> k < length ?ys \<longrightarrow> ?ys ! k = xs ! Suc k"
  proof (intro allI impI)
    fix k assume k: "nat i \<le> k \<and> k < length ?ys"
    have lt: "length (take (nat i) xs) = nat i" using n by simp
    have "?ys ! k = drop (Suc (nat i)) xs ! (k - nat i)"
      using k lt by (simp add: nth_append)
    also have "\<dots> = xs ! (Suc (nat i) + (k - nat i))"
      using k n by (simp add: nth_drop)
    also have "Suc (nat i) + (k - nat i) = Suc k" using k by simp
    finally show "?ys ! k = xs ! Suc k" .
  qed
  from d l e s
  show "\<exists>ys. delete_item i fs = (Inr (Redirect ''/''), Some (Document (JArr ys)))
              \<and> length ys = length xs - 1
              \<and> (\<forall>k. k < nat i \<longrightarrow> ys ! k = xs ! k)
              \<and> (\<forall>k. nat i \<le> k \<and> k < length ys \<longrightarrow> ys ! k = xs ! Suc k)"
    by blast
next
  assume "\<not> (0 \<le> i \<and> i < int (length xs))"
  with assms show "delete_item i fs = (Inr (Redirect ''/''), fs)"
    by (rule delete_out)
qed

theorem delete_removes_index_witness:
  "load_data (Some (Document (JArr [JInt 10, JInt 20, JInt 30]))) = Inr (JArr [JInt 10, JInt 20, JInt 30])
   \<and> delete_item 1 (Some (Document (JArr [JInt 10, JInt 20, JInt 30])))
       = (Inr (Redirect ''/''), Some (Document (JArr [JInt 10, JInt 30])))
   \<and> delete_item 3 (Some (Document (JArr [JInt 10, JInt 20, JInt 30])))
       = (Inr (Redirect ''/''), Some (Document (JArr [JInt 10, JInt 20, JInt 30])))
   \<and> delete_item (- 1) (Some (Document (JArr [JInt 10, JInt 20, JInt 30])))
       = (Inr (Redirect ''/''), Some (Document (JArr [JInt 10, JInt 20, JInt 30])))"
proof -
  let ?xs = "[JInt 10, JInt 20, JInt 30]"
  let ?fs = "Some (Document (JArr ?xs))"
  have h: "load_data ?fs = Inr (JArr ?xs)" by simp
  have a: "delete_item 1 ?fs = (Inr (Redirect ''/''), Some (Document (JArr [JInt 10, JInt 30])))"
  proof -
    from delete_removes_index [OF h, of 1]
    obtain ys where d: "delete_item 1 ?fs = (Inr (Redirect ''/''), Some (Document (JArr ys)))"
      and l: "length ys = 2"
      and e: "\<forall>k. k < nat 1 \<longrightarrow> ys ! k = ?xs ! k"
      and s: "\<forall>k. nat 1 \<le> k \<and> k < length ys \<longrightarrow> ys ! k = ?xs ! Suc k"
      by auto
    from l obtain a b where ys: "ys = [a, b]"
      by (cases ys; cases "tl ys"; cases "tl (tl ys)") auto
    from e have "ys ! 0 = ?xs ! 0" by simp
    with ys have a: "a = JInt 10" by simp
    from s l have "ys ! 1 = ?xs ! Suc 1" by simp
    with ys have b: "b = JInt 30" by simp
    from d ys a b show ?thesis by simp
  qed
  have b: "delete_item 3 ?fs = (Inr (Redirect ''/''), ?fs)"
    using delete_removes_index [OF h, of 3] by simp
  have c: "delete_item (- 1) ?fs = (Inr (Redirect ''/''), ?fs)"
    using delete_removes_index [OF h, of "- 1"] by simp
  from h a b c show ?thesis by simp
qed

subsection \<open>Reserving and unreserving\<close>

text \<open>
  C3. On a store of items, \<^verbatim>\<open>/reserve/<index>\<close> sets the purchased flag of the item
  at an in-range index to true and \<^verbatim>\<open>/unreserve/<index>\<close> sets it to false; with an
  index out of range, delete, reserve and unreserve leave the file as it was and still
  redirect.
\<close>

theorem reserve_unreserve_in_range_only:
  assumes "load_data fs = Inr (JArr xs)"
    and "\<forall>x \<in> set xs. is_item x"
  shows "(0 \<le> i \<and> i < int (length xs) \<longrightarrow>
           (\<exists>ys. reserve_item i fs = (Inr (Redirect ''/public''), Some (Document (JArr ys)))
              \<and> field ''purchased'' (ys ! nat i) = Some (JBool True))
         \<and> (\<exists>zs. unreserve_item i fs = (Inr (Redirect ''/public''), Some (Document (JArr zs)))
              \<and> field ''purchased'' (zs ! nat i) = Some (JBool False)))
       \<and> (\<not> (0 \<le> i \<and> i < int (length xs)) \<longrightarrow>
            reserve_item i fs = (Inr (Redirect ''/public''), fs)
          \<and> unreserve_item i fs = (Inr (Redirect ''/public''), fs)
          \<and> delete_item i fs = (Inr (Redirect ''/''), fs))"
proof (intro conjI impI)
  assume r: "0 \<le> i \<and> i < int (length xs)"
  then have n: "nat i < length xs" by (simp add: nat_less_iff)
  with assms(2) have "is_item (xs ! nat i)" by simp
  then obtain kvs where kvs: "xs ! nat i = JObj kvs"
    by (auto simp: is_item_iff)
  show "\<exists>ys. reserve_item i fs = (Inr (Redirect ''/public''), Some (Document (JArr ys)))
              \<and> field ''purchased'' (ys ! nat i) = Some (JBool True)"
    using reserve_in [OF assms(1) _ _ kvs] r n by (simp add: update_conv')
  show "\<exists>zs. unreserve_item i fs = (Inr (Redirect ''/public''), Some (Document (JArr zs)))
              \<and> field ''purchased'' (zs ! nat i) = Some (JBool False)"
    using unreserve_in [OF assms(1) _ _ kvs] r n by (simp add: update_conv')
next
  assume o: "\<not> (0 \<le> i \<and> i < int (length xs))"
  from assms(1) o show "reserve_item i fs = (Inr (Redirect ''/public''), fs)"
    by (rule reserve_out)
  from assms(1) o show "unreserve_item i fs = (Inr (Redirect ''/public''), fs)"
    by (rule unreserve_out)
  from assms(1) o show "delete_item i fs = (Inr (Redirect ''/''), fs)"
    by (rule delete_out)
qed

theorem reserve_unreserve_in_range_only_witness:
  "load_data (Some (Document (JArr [JObj [(''name'', JStr ''Book'')], JObj [(''purchased'', JBool True)]])))
     = Inr (JArr [JObj [(''name'', JStr ''Book'')], JObj [(''purchased'', JBool True)]])
   \<and> list_all is_item [JObj [(''name'', JStr ''Book'')], JObj [(''purchased'', JBool True)]]
   \<and> (\<exists>ys. reserve_item 0 (Some (Document (JArr [JObj [(''name'', JStr ''Book'')], JObj [(''purchased'', JBool True)]])))
          = (Inr (Redirect ''/public''), Some (Document (JArr ys)))
        \<and> field ''purchased'' (ys ! nat 0) = Some (JBool True))
   \<and> (\<exists>zs. unreserve_item 1 (Some (Document (JArr [JObj [(''name'', JStr ''Book'')], JObj [(''purchased'', JBool True)]])))
          = (Inr (Redirect ''/public''), Some (Document (JArr zs)))
        \<and> field ''purchased'' (zs ! nat 1) = Some (JBool False))
   \<and> reserve_item 2 (Some (Document (JArr [JObj [(''name'', JStr ''Book'')], JObj [(''purchased'', JBool True)]])))
       = (Inr (Redirect ''/public''),
          Some (Document (JArr [JObj [(''name'', JStr ''Book'')], JObj [(''purchased'', JBool True)]])))"
proof -
  let ?xs = "[JObj [(''name'', JStr ''Book'')], JObj [(''purchased'', JBool True)]]"
  let ?fs = "Some (Document (JArr ?xs))"
  have h1: "load_data ?fs = Inr (JArr ?xs)" by simp
  have h2: "\<forall>x \<in> set ?xs. is_item x" by simp
  note t = reserve_unreserve_in_range_only [OF h1 h2]
  have a: "\<exists>ys. reserve_item 0 ?fs = (Inr (Redirect ''/public''), Some (Document (JArr ys)))
        \<and> field ''purchased'' (ys ! nat 0) = Some (JBool True)"
    using t [of 0] by simp
  have b: "\<exists>zs. unreserve_item 1 ?fs = (Inr (Redirect ''/public''), Some (Document (JArr zs)))
        \<and> field ''purchased'' (zs ! nat 1) = Some (JBool False)"
    using t [of 1] by simp
  have c: "reserve_item 2 ?fs = (Inr (Redirect ''/public''), ?fs)"
    using t [of 2] by simp
  have h3: "list_all is_item ?xs" by simp
  from h1 h3 a b c show ?thesis by blast
qed

text \<open>
  C4. For an in-range index whose element is an item, reserving and then unreserving
  leaves that item's purchased flag false, and reserving twice gives the same outcome
  as reserving once, with the flag true.
\<close>

theorem reserve_then_unreserve_and_idempotent:
  assumes "load_data fs = Inr (JArr xs)"
    and "0 \<le> i" and "i < int (length xs)"
    and "is_item (xs ! nat i)"
  shows "(\<exists>ys. snd (unreserve_item i (snd (reserve_item i fs))) = Some (Document (JArr ys))
              \<and> field ''purchased'' (ys ! nat i) = Some (JBool False))
       \<and> reserve_item i (snd (reserve_item i fs)) = reserve_item i fs
       \<and> (\<exists>zs. snd (reserve_item i fs) = Some (Document (JArr zs))
              \<and> field ''purchased'' (zs ! nat i) = Some (JBool True))"
proof -
  from assms(3) assms(2) have n: "nat i < length xs" by (simp add: nat_less_iff)
  from assms(4) obtain kvs where kvs: "xs ! nat i = JObj kvs"
    by (auto simp: is_item_iff)
  let ?kvs1 = "AList.update ''purchased'' (JBool True) kvs"
  let ?ys = "xs[nat i := JObj ?kvs1]"
  let ?fs1 = "Some (Document (JArr ?ys))"
  have r1: "reserve_item i fs = (Inr (Redirect ''/public''), ?fs1)"
    using assms(1-3) kvs by (rule reserve_in)
  have l1: "load_data ?fs1 = Inr (JArr ?ys)" by simp
  have i1: "i < int (length ?ys)" using assms(3) by simp
  have k1: "?ys ! nat i = JObj ?kvs1" using n by simp
  have r2: "reserve_item i ?fs1 = (Inr (Redirect ''/public''),
      Some (Document (JArr (?ys[nat i := JObj (AList.update ''purchased'' (JBool True) ?kvs1)]))))"
    using l1 assms(2) i1 k1 by (rule reserve_in)
  have u2: "unreserve_item i ?fs1 = (Inr (Redirect ''/public''),
      Some (Document (JArr (?ys[nat i := JObj (AList.update ''purchased'' (JBool False) ?kvs1)]))))"
    using l1 assms(2) i1 k1 by (rule unreserve_in)
  have a: "\<exists>ys. snd (unreserve_item i (snd (reserve_item i fs))) = Some (Document (JArr ys))
              \<and> field ''purchased'' (ys ! nat i) = Some (JBool False)"
    using r1 u2 n by (simp add: update_conv')
  have b: "reserve_item i (snd (reserve_item i fs)) = reserve_item i fs"
    using r1 r2 by simp
  have c: "\<exists>zs. snd (reserve_item i fs) = Some (Document (JArr zs))
              \<and> field ''purchased'' (zs ! nat i) = Some (JBool True)"
    using r1 n by (simp add: update_conv')
  from a b c show ?thesis by blast
qed

theorem reserve_then_unreserve_and_idempotent_witness:
  "load_data (Some (Document (JArr [JObj [(''name'', JStr ''Book''), (''purchased'', JBool False)]])))
     = Inr (JArr [JObj [(''name'', JStr ''Book''), (''purchased'', JBool False)]])
   \<and> (0::int) \<le> 0 \<and> (0::int) < int (length [JObj [(''name'', JStr ''Book''), (''purchased'', JBool False)]])
   \<and> is_item ([JObj [(''name'', JStr ''Book''), (''purchased'', JBool False)]] ! nat 0)
   \<and> reserve_item 0 (snd (reserve_item 0
        (Some (Document (JArr [JObj [(''name'', JStr ''Book''), (''purchased'', JBool False)]])))))
     = reserve_item 0 (Some (Document (JArr [JObj [(''name'', JStr ''Book''), (''purchased'', JBool False)]])))
   \<and> (\<exists>ys. snd (unreserve_item 0 (snd (reserve_item 0
        (Some (Document (JArr [JObj [(''name'', JStr ''Book''), (''purchased'', JBool False)]]))))))
          = Some (Document (JArr ys))
        \<and> field ''purchased'' (ys ! nat 0) = Some (JBool False))"
proof -
  let ?xs = "[JObj [(''name'', JStr ''Book''), (''purchased'', JBool False)]]"
  let ?fs = "Some (Document (JArr ?xs))"
  have h1: "load_data ?fs = Inr (JArr ?xs)" by simp
  have h2: "(0::int) \<le> 0" by simp
  have h3: "(0::int) < int (length ?xs)" by simp
  have h4: "is_item (?xs ! nat 0)" by simp
  from reserve_then_unreserve_and_idempotent [OF h1 h2 h3 h4] h1 h2 h3 h4
  show ?thesis by blast
qed

subsection \<open>The absent file\<close>

text \<open>
  C5. \<^verbatim>\<open>load_data\<close> gives the empty list when the file is absent, and every route
  answers on the absent file as on a file holding the empty list: the owner view and
  the public view render no items, a POST adds to the empty list, delete, reserve and
  unreserve redirect without creating the file, and the legacy routes redirect.
\<close>

theorem absent_file_is_empty_wishlist:
  "load_data None = Inr (JArr [])
   \<and> fst (wishlist req now None) = fst (wishlist req now (Some (Document (JArr []))))
   \<and> load_data (snd (wishlist req now None))
       = load_data (snd (wishlist req now (Some (Document (JArr [])))))
   \<and> wishlist \<lparr>req_method = ''GET'', req_form = f\<rparr> now None
       = (Inr (Render ''wishlist.html'' []), None)
   \<and> public_view None = (Inr (Render ''public_list.html'' []), None)
   \<and> delete_item i None = (Inr (Redirect ''/''), None)
   \<and> reserve_item i None = (Inr (Redirect ''/public''), None)
   \<and> unreserve_item i None = (Inr (Redirect ''/public''), None)
   \<and> wishlist_page None = (Inr (Redirect ''/''), None)
   \<and> add_page None = (Inr (Redirect ''/''), None)"
proof -
  have l: "load_data None = Inr (JArr [])" by simp
  have a: "fst (wishlist req now None) = fst (wishlist req now (Some (Document (JArr []))))"
    by (simp add: wishlist_def view_items_empty split: option.splits)
  have b: "load_data (snd (wishlist req now None))
       = load_data (snd (wishlist req now (Some (Document (JArr [])))))"
    by (simp add: wishlist_def view_items_empty save_data_def split: option.splits)
  have c: "wishlist \<lparr>req_method = ''GET'', req_form = f\<rparr> now None
       = (Inr (Render ''wishlist.html'' []), None)"
    by (simp add: wishlist_def view_items_empty)
  have d: "public_view None = (Inr (Render ''public_list.html'' []), None)"
    by (simp add: public_view_def view_items_empty)
  have e: "delete_item i None = (Inr (Redirect ''/''), None)"
    using delete_out [of None "[]" i] by simp
  have g: "reserve_item i None = (Inr (Redirect ''/public''), None)"
    using reserve_out [of None "[]" i] by simp
  have h: "unreserve_item i None = (Inr (Redirect ''/public''), None)"
    using unreserve_out [of None "[]" i] by simp
  have p: "wishlist_page None = (Inr (Redirect ''/''), None)"
    by (simp add: wishlist_page_def url_wishlist)
  have q: "add_page None = (Inr (Redirect ''/''), None)"
    by (simp add: add_page_def url_wishlist)
  from l a b c d e g h p q show ?thesis by simp
qed

subsection \<open>The worked example\<close>

text \<open>
  C6. From the empty store (absent file, or a file holding the empty list), adding
  name Book, link http://x, empty notes and empty image_url gives a store of one item
  with image null and purchased false; reserving index 0 makes purchased true; deleting
  index 0 gives the empty list.
\<close>

theorem book_example:
  "wishlist \<lparr>req_method = ''POST'',
             req_form = [''name'' \<mapsto> ''Book'', ''link'' \<mapsto> ''http://x'',
                         ''notes'' \<mapsto> [], ''image_url'' \<mapsto> []]\<rparr> now None
     = (Inr (Redirect ''/''),
        Some (Document (JArr [JObj [(''name'', JStr ''Book''), (''link'', JStr ''http://x''),
           (''notes'', JStr []), (''image'', JNull), (''purchased'', JBool False),
           (''created_at'', JStr now)]])))
   \<and> wishlist \<lparr>req_method = ''POST'',
             req_form = [''name'' \<mapsto> ''Book'', ''link'' \<mapsto> ''http://x'',
                         ''notes'' \<mapsto> [], ''image_url'' \<mapsto> []]\<rparr> now (Some (Document (JArr [])))
     = (Inr (Redirect ''/''),
        Some (Document (JArr [JObj [(''name'', JStr ''Book''), (''link'', JStr ''http://x''),
           (''notes'', JStr []), (''image'', JNull), (''purchased'', JBool False),
           (''created_at'', JStr now)]])))
   \<and> reserve_item 0
        (Some (Document (JArr [JObj [(''name'', JStr ''Book''), (''link'', JStr ''http://x''),
           (''notes'', JStr []), (''image'', JNull), (''purchased'', JBool False),
           (''created_at'', JStr now)]])))
     = (Inr (Redirect ''/public''),
        Some (Document (JArr [JObj [(''name'', JStr ''Book''), (''link'', JStr ''http://x''),
           (''notes'', JStr []), (''image'', JNull), (''purchased'', JBool True),
           (''created_at'', JStr now)]])))
   \<and> delete_item 0
        (Some (Document (JArr [JObj [(''name'', JStr ''Book''), (''link'', JStr ''http://x''),
           (''notes'', JStr []), (''image'', JNull), (''purchased'', JBool True),
           (''created_at'', JStr now)]])))
     = (Inr (Redirect ''/''), Some (Document (JArr [])))"
proof -
  let ?req = "\<lparr>req_method = ''POST'',
             req_form = [''name'' \<mapsto> ''Book'', ''link'' \<mapsto> ''http://x'',
                         ''notes'' \<mapsto> [], ''image_url'' \<mapsto> []]\<rparr>"
  let ?item = "\<lambda>b. JObj [(''name'', JStr ''Book''), (''link'', JStr ''http://x''),
           (''notes'', JStr []), (''image'', JNull), (''purchased'', JBool b),
           (''created_at'', JStr now)]"
  have a: "wishlist ?req now None = (Inr (Redirect ''/''), Some (Document (JArr [?item False])))"
    by (simp add: wishlist_def py_strip_empty new_item_def url_wishlist save_data_def)
  have b: "wishlist ?req now (Some (Document (JArr [])))
             = (Inr (Redirect ''/''), Some (Document (JArr [?item False])))"
    by (simp add: wishlist_def py_strip_empty new_item_def url_wishlist save_data_def)
  have c: "reserve_item 0 (Some (Document (JArr [?item False])))
             = (Inr (Redirect ''/public''), Some (Document (JArr [?item True])))"
    by (simp add: reserve_item_def in_range_arr position_def url_public save_data_def)
  have d: "delete_item 0 (Some (Document (JArr [?item True])))
             = (Inr (Redirect ''/''), Some (Document (JArr [])))"
    by (simp add: delete_item_def in_range_arr position_def url_wishlist save_data_def)
  from a b c d show ?thesis by simp
qed

subsection \<open>Auxiliary facts about the encoder and the decoder\<close>






















lemma char_eq_code: "(c = d) = ((of_char c :: nat) = of_char d)"
  by (simp only: of_char_eq_iff)

lemma hex_val_hex_char: "a < 16 \<Longrightarrow> hex_val (hex_char a) = Some a"
  by (simp add: hex_val_def hex_char_def Let_def)

lemma hex_val_zero: "hex_val (CHR ''0'') = Some 0"
  by (simp add: hex_val_def)

lemma hex4_byte: "n < 256 \<Longrightarrow> hex4 (CHR ''0'') (CHR ''0'') (hex_char (n div 16)) (hex_char (n mod 16)) = Some n"
proof -
  assume n: "n < 256"
  then have "n div 16 < 16" by simp
  then have a: "hex_val (hex_char (n div 16)) = Some (n div 16)" by (rule hex_val_hex_char)
  have b: "hex_val (hex_char (n mod 16)) = Some (n mod 16)" by (rule hex_val_hex_char) simp
  show ?thesis by (simp add: hex4_def hex_val_zero a b)
qed

lemma scan_string_escape: "scan_string (escape c @ cs) = cons_result c (scan_string cs)"
proof -
  let ?n = "of_char c :: nat"
  have c: "c = char_of ?n" by simp
  consider (dq) "c = dquote" | (bs) "c = backslash"
    | (sp) "c \<noteq> dquote" "c \<noteq> backslash" "?n = 10 \<or> ?n = 13 \<or> ?n = 9 \<or> ?n = 8 \<or> ?n = 12"
    | (pr) "c \<noteq> dquote" "c \<noteq> backslash" "32 \<le> ?n" "?n \<le> 126"
    | (ot) "c \<noteq> dquote" "c \<noteq> backslash" "?n \<noteq> 10" "?n \<noteq> 13" "?n \<noteq> 9" "?n \<noteq> 8" "?n \<noteq> 12" "\<not> (32 \<le> ?n \<and> ?n \<le> 126)"
    by linarith
  then show ?thesis
  proof cases
    case dq
    then show ?thesis by (simp add: escape_def unescape_def dquote_def backslash_def)
  next
    case bs
    then show ?thesis by (simp add: escape_def unescape_def dquote_def backslash_def)
  next
    case sp
    from sp(3) have "c = CHR 0x0A \<or> c = CHR 0x0D \<or> c = CHR 0x09 \<or> c = CHR 0x08 \<or> c = CHR 0x0C"
      by (simp add: char_eq_code)
    then show ?thesis by (auto simp add: escape_def unescape_def dquote_def backslash_def)
  next
    case pr
    then show ?thesis by (simp add: escape_def Let_def)
  next
    case ot
    have lt: "?n < 256" by simp
    from ot have e: "escape c = [backslash, CHR ''u'', CHR ''0'', CHR ''0'', hex_char (?n div 16), hex_char (?n mod 16)]"
      by (simp add: escape_def Let_def)
    show ?thesis unfolding e by (simp add: hex4_byte [OF lt] backslash_def dquote_def)
  qed
qed

lemma scan_string_encode: "scan_string (concat (map escape s) @ dquote # rest) = Some (s, rest)"
proof (induction s)
  case Nil
  show ?case by simp
next
  case (Cons c s)
  have "scan_string (escape c @ (concat (map escape s) @ dquote # rest)) = cons_result c (scan_string (concat (map escape s) @ dquote # rest))"
    by (rule scan_string_escape)
  with Cons show ?case by (simp add: cons_result_def)
qed

lemma scan_encode_string: "scan_string (tl (encode_string s) @ rest) = Some (s, rest)"
  using scan_string_encode [of s rest] by (simp add: encode_string_def)













lemma length_encode_pair: "length (json_dumps (snd p)) \<le> length (encode_pair p)"
  by (simp add: encode_pair_def)




subsection \<open>Saving and loading\<close>

text \<open>
  The text of the file and the file state of the handlers: \<open>load_data\<close> on the decoded
  text is \<open>load_data_text\<close> on the text, and every item the POST handler builds is a
  value of \<open>py_value\<close>.
\<close>

lemma json_loads_error: "json_loads t = Inl e \<Longrightarrow> e = JSONDecodeError"
  by (auto simp add: json_loads_def split: option.splits if_splits)

lemma load_data_decoded: "load_data (decoded d) = load_data_text d"
proof (cases d)
  case None
  then show ?thesis by (simp add: decoded_def load_data_text_def)
next
  case (Some t)
  show ?thesis
  proof (cases "json_loads t")
    case (Inl e)
    with json_loads_error [OF Inl] Some show ?thesis
      by (simp add: decoded_def load_data_text_def)
  next
    case (Inr v)
    with Some show ?thesis by (simp add: decoded_def load_data_text_def)
  qed
qed


lemma json_dumps_example:
  "json_dumps (JArr [JObj [(''name'', JStr ''Book''), (''image'', JNull), (''purchased'', JBool False)],
                     JStr [CHR ''a'', dquote, CHR 0x0A, CHR 0xE9], JInt (- 120)])
   = ''[{'' @ [dquote] @ ''name'' @ [dquote] @ '': '' @ [dquote] @ ''Book'' @ [dquote]
       @ '', '' @ [dquote] @ ''image'' @ [dquote] @ '': null, ''
       @ [dquote] @ ''purchased'' @ [dquote] @ '': false}, ''
       @ [dquote] @ ''a'' @ [backslash, dquote, backslash] @ ''n'' @ [backslash] @ ''u00e9'' @ [dquote]
       @ '', -120]''"
  by code_simp

lemma json_loads_example:
  "json_loads ('' [ {'' @ [dquote] @ ''a'' @ [dquote] @ '':1 ,'' @ [dquote] @ ''b'' @ [dquote]
                @ '': [true, null]} , '' @ [dquote, backslash] @ ''u00E9'' @ [backslash] @ ''t''
                @ [dquote] @ '', -7, 2.5e3 ] '')
   = Inr (JArr [JObj [(''a'', JInt 1), (''b'', JArr [JBool True, JNull])],
                JStr [CHR 0xE9, CHR 0x09], JInt (- 7), JFloat ''2.5e3''])
   \<and> json_loads ''[1,]'' = Inl JSONDecodeError
   \<and> json_loads ''01'' = Inl JSONDecodeError
   \<and> json_loads ''[] x'' = Inl JSONDecodeError"
  by code_simp



subsection \<open>What reserving leaves alone\<close>

text \<open>
  C7. Reserving or unreserving an in-range index whose element is an item keeps the
  length of the list, keeps every other element as it was, and keeps every key of the
  item other than purchased (name, link, notes, image, created_at among them) at its
  value; the element is still an item.
\<close>

theorem reserve_changes_only_purchased:
  assumes "load_data fs = Inr (JArr xs)"
    and "0 \<le> i" and "i < int (length xs)"
    and "is_item (xs ! nat i)"
  shows "(\<exists>ys. snd (reserve_item i fs) = Some (Document (JArr ys))
            \<and> length ys = length xs
            \<and> (\<forall>k. k < length xs \<and> k \<noteq> nat i \<longrightarrow> ys ! k = xs ! k)
            \<and> (\<forall>key. key \<noteq> ''purchased'' \<longrightarrow> field key (ys ! nat i) = field key (xs ! nat i))
            \<and> is_item (ys ! nat i))
       \<and> (\<exists>zs. snd (unreserve_item i fs) = Some (Document (JArr zs))
            \<and> length zs = length xs
            \<and> (\<forall>k. k < length xs \<and> k \<noteq> nat i \<longrightarrow> zs ! k = xs ! k)
            \<and> (\<forall>key. key \<noteq> ''purchased'' \<longrightarrow> field key (zs ! nat i) = field key (xs ! nat i))
            \<and> is_item (zs ! nat i))"
proof -
  from assms(2,3) have n: "nat i < length xs" by (simp add: nat_less_iff)
  from assms(4) obtain kvs where kvs: "xs ! nat i = JObj kvs"
    by (auto simp: is_item_iff)
  have r: "snd (reserve_item i fs)
      = Some (Document (JArr (xs[nat i := JObj (AList.update ''purchased'' (JBool True) kvs)])))"
    using reserve_in [OF assms(1-3) kvs] by simp
  have u: "snd (unreserve_item i fs)
      = Some (Document (JArr (xs[nat i := JObj (AList.update ''purchased'' (JBool False) kvs)])))"
    using unreserve_in [OF assms(1-3) kvs] by simp
  from r set_flag_frame [OF n kvs, of "JBool True"]
  have a: "\<exists>ys. snd (reserve_item i fs) = Some (Document (JArr ys))
            \<and> length ys = length xs
            \<and> (\<forall>k. k < length xs \<and> k \<noteq> nat i \<longrightarrow> ys ! k = xs ! k)
            \<and> (\<forall>key. key \<noteq> ''purchased'' \<longrightarrow> field key (ys ! nat i) = field key (xs ! nat i))
            \<and> is_item (ys ! nat i)"
    by blast
  from u set_flag_frame [OF n kvs, of "JBool False"]
  have b: "\<exists>zs. snd (unreserve_item i fs) = Some (Document (JArr zs))
            \<and> length zs = length xs
            \<and> (\<forall>k. k < length xs \<and> k \<noteq> nat i \<longrightarrow> zs ! k = xs ! k)
            \<and> (\<forall>key. key \<noteq> ''purchased'' \<longrightarrow> field key (zs ! nat i) = field key (xs ! nat i))
            \<and> is_item (zs ! nat i)"
    by blast
  from a b show ?thesis by blast
qed

theorem reserve_changes_only_purchased_witness:
  "load_data (Some (Document (JArr
       [JObj [(''name'', JStr ''Book''), (''link'', JStr ''http://x''), (''purchased'', JBool False)],
        JObj [(''name'', JStr ''Pen'')]])))
     = Inr (JArr
       [JObj [(''name'', JStr ''Book''), (''link'', JStr ''http://x''), (''purchased'', JBool False)],
        JObj [(''name'', JStr ''Pen'')]])
   \<and> (0::int) \<le> 0
   \<and> (0::int) < int (length
       [JObj [(''name'', JStr ''Book''), (''link'', JStr ''http://x''), (''purchased'', JBool False)],
        JObj [(''name'', JStr ''Pen'')]])
   \<and> is_item ([JObj [(''name'', JStr ''Book''), (''link'', JStr ''http://x''), (''purchased'', JBool False)],
        JObj [(''name'', JStr ''Pen'')]] ! nat 0)
   \<and> (\<exists>ys. snd (reserve_item 0 (Some (Document (JArr
       [JObj [(''name'', JStr ''Book''), (''link'', JStr ''http://x''), (''purchased'', JBool False)],
        JObj [(''name'', JStr ''Pen'')]])))) = Some (Document (JArr ys))
        \<and> length ys = 2
        \<and> ys ! 1 = JObj [(''name'', JStr ''Pen'')]
        \<and> field ''name'' (ys ! 0) = Some (JStr ''Book'')
        \<and> field ''link'' (ys ! 0) = Some (JStr ''http://x''))"
proof -
  let ?xs = "[JObj [(''name'', JStr ''Book''), (''link'', JStr ''http://x''), (''purchased'', JBool False)],
        JObj [(''name'', JStr ''Pen'')]]"
  let ?fs = "Some (Document (JArr ?xs))"
  have h1: "load_data ?fs = Inr (JArr ?xs)" by simp
  have h2: "(0::int) \<le> 0" by simp
  have h3: "(0::int) < int (length ?xs)" by simp
  have h4: "is_item (?xs ! nat 0)" by simp
  from reserve_changes_only_purchased [OF h1 h2 h3 h4]
  obtain ys where y: "snd (reserve_item 0 ?fs) = Some (Document (JArr ys))"
    and l: "length ys = length ?xs"
    and o: "\<forall>k. k < length ?xs \<and> k \<noteq> nat 0 \<longrightarrow> ys ! k = ?xs ! k"
    and f: "\<forall>key. key \<noteq> ''purchased'' \<longrightarrow> field key (ys ! nat 0) = field key (?xs ! nat 0)"
    by blast
  from l have l2: "length ys = 2" by simp
  from o have "1 < length ?xs \<and> (1::nat) \<noteq> nat 0 \<longrightarrow> ys ! 1 = ?xs ! 1" by blast
  then have o1: "ys ! 1 = JObj [(''name'', JStr ''Pen'')]" by simp
  from f have "field ''name'' (ys ! nat 0) = field ''name'' (?xs ! nat 0)" by simp
  then have f1: "field ''name'' (ys ! 0) = Some (JStr ''Book'')" by simp
  from f have "field ''link'' (ys ! nat 0) = field ''link'' (?xs ! nat 0)" by simp
  then have f2: "field ''link'' (ys ! 0) = Some (JStr ''http://x'')" by simp
  from y l2 o1 f1 f2 h1 h2 h3 h4 show ?thesis by blast
qed

subsection \<open>Insertion order\<close>

text \<open>
  C8. On a store that loads as the list \<open>xs\<close>, every operation keeps the order of the
  items. A POST to \<^verbatim>\<open>/\<close> with name, link and notes leaves \<open>xs\<close> followed by the new
  item, built from the form, as the last element; any other request to \<^verbatim>\<open>/\<close> leaves the
  file as it was. Delete leaves the elements of \<open>xs\<close> other than the one at the index, in
  their order (all of \<open>xs\<close> when the index is out of range). Reserve and unreserve leave
  a list that is \<open>xs\<close> position by position once the purchased key is set aside. The
  public view leaves the file as it was.
\<close>

theorem operations_keep_insertion_order:
  assumes "load_data fs = Inr (JArr xs)"
  shows "(req_method req = ''POST'' \<and> req_form req ''name'' = Some name
            \<and> req_form req ''link'' = Some link \<and> req_form req ''notes'' = Some ntext \<longrightarrow>
          load_data (snd (wishlist req now fs))
            = Inr (JArr (xs @ [new_item name link ntext
                (py_strip (case req_form req ''image_url'' of None \<Rightarrow> [] | Some s \<Rightarrow> s)) now])))
       \<and> (req_method req \<noteq> ''POST'' \<or> req_form req ''name'' = None
            \<or> req_form req ''link'' = None \<or> req_form req ''notes'' = None \<longrightarrow>
          snd (wishlist req now fs) = fs)
       \<and> load_data (snd (delete_item i fs))
            = Inr (JArr (if 0 \<le> i \<and> i < int (length xs) then nths xs (- {nat i}) else xs))
       \<and> (\<exists>ys. load_data (snd (reserve_item i fs)) = Inr (JArr ys)
            \<and> map (drop_field ''purchased'') ys = map (drop_field ''purchased'') xs)
       \<and> (\<exists>ys. load_data (snd (unreserve_item i fs)) = Inr (JArr ys)
            \<and> map (drop_field ''purchased'') ys = map (drop_field ''purchased'') xs)
       \<and> snd (public_view fs) = fs"
proof -
  have a: "req_method req = ''POST'' \<and> req_form req ''name'' = Some name
            \<and> req_form req ''link'' = Some link \<and> req_form req ''notes'' = Some ntext \<longrightarrow>
          load_data (snd (wishlist req now fs))
            = Inr (JArr (xs @ [new_item name link ntext
                (py_strip (case req_form req ''image_url'' of None \<Rightarrow> [] | Some s \<Rightarrow> s)) now]))"
  proof
    assume p: "req_method req = ''POST'' \<and> req_form req ''name'' = Some name
            \<and> req_form req ''link'' = Some link \<and> req_form req ''notes'' = Some ntext"
    then have "wishlist req now fs = (Inr (Redirect ''/''),
           Some (Document (JArr (xs @ [new_item name link ntext
              (py_strip (case req_form req ''image_url'' of None \<Rightarrow> [] | Some s \<Rightarrow> s)) now]))))"
      using assms by (simp add: post_ok)
    then show "load_data (snd (wishlist req now fs))
            = Inr (JArr (xs @ [new_item name link ntext
                (py_strip (case req_form req ''image_url'' of None \<Rightarrow> [] | Some s \<Rightarrow> s)) now]))"
      by simp
  qed
  have b: "req_method req \<noteq> ''POST'' \<or> req_form req ''name'' = None
            \<or> req_form req ''link'' = None \<or> req_form req ''notes'' = None \<longrightarrow>
          snd (wishlist req now fs) = fs"
    using wishlist_keeps_file by blast
  from a b delete_state [OF assms] reserve_state [OF assms] unreserve_state [OF assms]
    public_view_state
  show ?thesis by blast
qed

theorem operations_keep_insertion_order_witness:
  "load_data (Some (Document (JArr [JObj [(''name'', JStr ''A'')], JObj [(''name'', JStr ''B'')],
       JObj [(''name'', JStr ''C'')]])))
     = Inr (JArr [JObj [(''name'', JStr ''A'')], JObj [(''name'', JStr ''B'')],
       JObj [(''name'', JStr ''C'')]])
   \<and> load_data (snd (wishlist
         \<lparr>req_method = ''POST'',
            req_form = [''name'' \<mapsto> ''D'', ''link'' \<mapsto> ''http://d'', ''notes'' \<mapsto> ''n'',
                        ''image_url'' \<mapsto> '' http://img '']\<rparr>
         ''2024-12-24T18:00:00''
         (Some (Document (JArr [JObj [(''name'', JStr ''A'')], JObj [(''name'', JStr ''B'')],
            JObj [(''name'', JStr ''C'')]])))))
     = Inr (JArr [JObj [(''name'', JStr ''A'')], JObj [(''name'', JStr ''B'')],
         JObj [(''name'', JStr ''C'')],
         JObj [(''name'', JStr ''D''), (''link'', JStr ''http://d''), (''notes'', JStr ''n''),
               (''image'', JStr ''http://img''), (''purchased'', JBool False),
               (''created_at'', JStr ''2024-12-24T18:00:00'')]])
   \<and> snd (wishlist \<lparr>req_method = ''GET'', req_form = Map.empty\<rparr> ''2024-12-24T18:00:00''
         (Some (Document (JArr [JObj [(''name'', JStr ''A'')], JObj [(''name'', JStr ''B'')],
            JObj [(''name'', JStr ''C'')]]))))
     = Some (Document (JArr [JObj [(''name'', JStr ''A'')], JObj [(''name'', JStr ''B'')],
            JObj [(''name'', JStr ''C'')]]))
   \<and> load_data (snd (delete_item 1 (Some (Document (JArr [JObj [(''name'', JStr ''A'')],
       JObj [(''name'', JStr ''B'')], JObj [(''name'', JStr ''C'')]])))))
     = Inr (JArr [JObj [(''name'', JStr ''A'')], JObj [(''name'', JStr ''C'')]])
   \<and> (\<exists>ys. load_data (snd (reserve_item 1 (Some (Document (JArr [JObj [(''name'', JStr ''A'')],
       JObj [(''name'', JStr ''B'')], JObj [(''name'', JStr ''C'')]]))))) = Inr (JArr ys)
        \<and> map (drop_field ''purchased'') ys
          = [JObj [(''name'', JStr ''A'')], JObj [(''name'', JStr ''B'')], JObj [(''name'', JStr ''C'')]])"
proof -
  let ?xs = "[JObj [(''name'', JStr ''A'')], JObj [(''name'', JStr ''B'')], JObj [(''name'', JStr ''C'')]]"
  let ?fs = "Some (Document (JArr ?xs))"
  let ?post = "\<lparr>req_method = ''POST'',
            req_form = [''name'' \<mapsto> ''D'', ''link'' \<mapsto> ''http://d'', ''notes'' \<mapsto> ''n'',
                        ''image_url'' \<mapsto> '' http://img '']\<rparr>"
  let ?get = "\<lparr>req_method = ''GET'', req_form = Map.empty\<rparr>"
  let ?now = "''2024-12-24T18:00:00''"
  have h: "load_data ?fs = Inr (JArr ?xs)" by simp
  note t = operations_keep_insertion_order [OF h, where req = ?post and name = "''D''"
      and link = "''http://d''" and ntext = "''n''" and now = ?now and i = 1]
  note g = operations_keep_insertion_order [OF h, where req = ?get and now = ?now]
  have st: "py_strip '' http://img '' = ''http://img''"
    by (simp add: py_strip_def is_space_def)
  have ni: "new_item ''D'' ''http://d'' ''n'' ''http://img'' ?now
      = JObj [(''name'', JStr ''D''), (''link'', JStr ''http://d''), (''notes'', JStr ''n''),
               (''image'', JStr ''http://img''), (''purchased'', JBool False),
               (''created_at'', JStr ?now)]"
    by (simp add: new_item_def)
  from t have "req_method ?post = ''POST'' \<and> req_form ?post ''name'' = Some ''D''
            \<and> req_form ?post ''link'' = Some ''http://d'' \<and> req_form ?post ''notes'' = Some ''n'' \<longrightarrow>
          load_data (snd (wishlist ?post ?now ?fs))
            = Inr (JArr (?xs @ [new_item ''D'' ''http://d'' ''n''
                (py_strip (case req_form ?post ''image_url'' of None \<Rightarrow> [] | Some s \<Rightarrow> s)) ?now]))"
    by blast
  then have a: "load_data (snd (wishlist ?post ?now ?fs))
      = Inr (JArr [JObj [(''name'', JStr ''A'')], JObj [(''name'', JStr ''B'')],
         JObj [(''name'', JStr ''C'')],
         JObj [(''name'', JStr ''D''), (''link'', JStr ''http://d''), (''notes'', JStr ''n''),
               (''image'', JStr ''http://img''), (''purchased'', JBool False),
               (''created_at'', JStr ?now)]])"
    by (simp add: st ni)
  from g have "req_method ?get \<noteq> ''POST'' \<or> req_form ?get ''name'' = None
            \<or> req_form ?get ''link'' = None \<or> req_form ?get ''notes'' = None \<longrightarrow>
          snd (wishlist ?get ?now ?fs) = ?fs"
    by blast
  then have b: "snd (wishlist ?get ?now ?fs) = ?fs" by simp
  have n: "nths ?xs (- {nat 1}) = [JObj [(''name'', JStr ''A'')], JObj [(''name'', JStr ''C'')]]"
    by (simp add: nths_Cons)
  from t have "load_data (snd (delete_item 1 ?fs))
      = Inr (JArr (if (0::int) \<le> 1 \<and> (1::int) < int (length ?xs) then nths ?xs (- {nat 1}) else ?xs))"
    by blast
  with n have d: "load_data (snd (delete_item 1 ?fs))
      = Inr (JArr [JObj [(''name'', JStr ''A'')], JObj [(''name'', JStr ''C'')]])"
    by simp
  from t have r: "\<exists>ys. load_data (snd (reserve_item 1 ?fs)) = Inr (JArr ys)
        \<and> map (drop_field ''purchased'') ys = map (drop_field ''purchased'') ?xs"
    by blast
  have m: "map (drop_field ''purchased'') ?xs = ?xs" by simp
  from h a b d r m show ?thesis by simp
qed

subsection \<open>The views\<close>

text \<open>
  C10. On a store of items, whatever keys the items have, the owner view (any request
  to \<^verbatim>\<open>/\<close> that is not a POST) and the public view both succeed, leave the file as it
  was, and render the same list: one dict per item, with its index and, for an absent
  key, the default "-" for name, the empty string for brand, link and notes, null for
  image and false for purchased. No operation writes a brand: after any request to
  \<^verbatim>\<open>/\<close>, delete, reserve or unreserve, the brand values of the stored items are those
  stored before, the added item having none.
\<close>

theorem views_project_with_defaults:
  assumes "load_data fs = Inr (JArr xs)"
    and "\<forall>x \<in> set xs. is_item x"
    and "req_method req \<noteq> ''POST''"
  shows "(\<exists>items. wishlist req now fs = (Inr (Render ''wishlist.html'' items), fs)
            \<and> public_view fs = (Inr (Render ''public_list.html'' items), fs)
            \<and> length items = length xs
            \<and> (\<forall>k. k < length xs \<longrightarrow> items ! k =
                 JObj [(''index'', JInt (int k)),
                       (''name'', case field ''name'' (xs ! k) of None \<Rightarrow> JStr ''-'' | Some v \<Rightarrow> v),
                       (''brand'', case field ''brand'' (xs ! k) of None \<Rightarrow> JStr [] | Some v \<Rightarrow> v),
                       (''link'', case field ''link'' (xs ! k) of None \<Rightarrow> JStr [] | Some v \<Rightarrow> v),
                       (''notes'', case field ''notes'' (xs ! k) of None \<Rightarrow> JStr [] | Some v \<Rightarrow> v),
                       (''image'', case field ''image'' (xs ! k) of None \<Rightarrow> JNull | Some v \<Rightarrow> v),
                       (''purchased'', case field ''purchased'' (xs ! k) of
                                         None \<Rightarrow> JBool False | Some v \<Rightarrow> v)]))
       \<and> (\<forall>r t ys. load_data (snd (wishlist r t fs)) = Inr (JArr ys) \<longrightarrow>
             set (map (field ''brand'') ys) \<subseteq> insert None (set (map (field ''brand'') xs)))
       \<and> (\<forall>i ys. load_data (snd (delete_item i fs)) = Inr (JArr ys) \<longrightarrow>
             set (map (field ''brand'') ys) \<subseteq> set (map (field ''brand'') xs))
       \<and> (\<forall>i ys. load_data (snd (reserve_item i fs)) = Inr (JArr ys) \<longrightarrow>
             map (field ''brand'') ys = map (field ''brand'') xs)
       \<and> (\<forall>i ys. load_data (snd (unreserve_item i fs)) = Inr (JArr ys) \<longrightarrow>
             map (field ''brand'') ys = map (field ''brand'') xs)"
proof (intro conjI)
  from view_items_of_items [OF assms(2)]
  obtain vs where vs: "view_items (JArr xs) = Inr vs" and len: "length vs = length xs"
    and el: "\<forall>k. k < length xs \<longrightarrow> view_item k (xs ! k) = Inr (vs ! k)"
    by blast
  have w: "wishlist req now fs = (Inr (Render ''wishlist.html'' vs), fs)"
    using assms(1,3) vs by (simp add: wishlist_def)
  have p: "public_view fs = (Inr (Render ''public_list.html'' vs), fs)"
    using assms(1) vs by (simp add: public_view_def)
  have e: "\<forall>k. k < length xs \<longrightarrow> vs ! k =
                 JObj [(''index'', JInt (int k)),
                       (''name'', case field ''name'' (xs ! k) of None \<Rightarrow> JStr ''-'' | Some v \<Rightarrow> v),
                       (''brand'', case field ''brand'' (xs ! k) of None \<Rightarrow> JStr [] | Some v \<Rightarrow> v),
                       (''link'', case field ''link'' (xs ! k) of None \<Rightarrow> JStr [] | Some v \<Rightarrow> v),
                       (''notes'', case field ''notes'' (xs ! k) of None \<Rightarrow> JStr [] | Some v \<Rightarrow> v),
                       (''image'', case field ''image'' (xs ! k) of None \<Rightarrow> JNull | Some v \<Rightarrow> v),
                       (''purchased'', case field ''purchased'' (xs ! k) of
                                         None \<Rightarrow> JBool False | Some v \<Rightarrow> v)]"
  proof (intro allI impI)
    fix k assume k: "k < length xs"
    with assms(2) have "is_item (xs ! k)" by simp
    then obtain kvs where kvs: "xs ! k = JObj kvs" by (auto simp: is_item_iff)
    from el k have "view_item k (xs ! k) = Inr (vs ! k)" by blast
    with kvs have "Inr (vs ! k) = view_item k (JObj kvs)" by simp
    also note view_item_obj [of k kvs]
    finally show "vs ! k =
                 JObj [(''index'', JInt (int k)),
                       (''name'', case field ''name'' (xs ! k) of None \<Rightarrow> JStr ''-'' | Some v \<Rightarrow> v),
                       (''brand'', case field ''brand'' (xs ! k) of None \<Rightarrow> JStr [] | Some v \<Rightarrow> v),
                       (''link'', case field ''link'' (xs ! k) of None \<Rightarrow> JStr [] | Some v \<Rightarrow> v),
                       (''notes'', case field ''notes'' (xs ! k) of None \<Rightarrow> JStr [] | Some v \<Rightarrow> v),
                       (''image'', case field ''image'' (xs ! k) of None \<Rightarrow> JNull | Some v \<Rightarrow> v),
                       (''purchased'', case field ''purchased'' (xs ! k) of
                                         None \<Rightarrow> JBool False | Some v \<Rightarrow> v)]"
      using kvs by simp
  qed
  from w p len e
  show "\<exists>items. wishlist req now fs = (Inr (Render ''wishlist.html'' items), fs)
            \<and> public_view fs = (Inr (Render ''public_list.html'' items), fs)
            \<and> length items = length xs
            \<and> (\<forall>k. k < length xs \<longrightarrow> items ! k =
                 JObj [(''index'', JInt (int k)),
                       (''name'', case field ''name'' (xs ! k) of None \<Rightarrow> JStr ''-'' | Some v \<Rightarrow> v),
                       (''brand'', case field ''brand'' (xs ! k) of None \<Rightarrow> JStr [] | Some v \<Rightarrow> v),
                       (''link'', case field ''link'' (xs ! k) of None \<Rightarrow> JStr [] | Some v \<Rightarrow> v),
                       (''notes'', case field ''notes'' (xs ! k) of None \<Rightarrow> JStr [] | Some v \<Rightarrow> v),
                       (''image'', case field ''image'' (xs ! k) of None \<Rightarrow> JNull | Some v \<Rightarrow> v),
                       (''purchased'', case field ''purchased'' (xs ! k) of
                                         None \<Rightarrow> JBool False | Some v \<Rightarrow> v)])"
    by blast
next
  show "\<forall>r t ys. load_data (snd (wishlist r t fs)) = Inr (JArr ys) \<longrightarrow>
          set (map (field ''brand'') ys) \<subseteq> insert None (set (map (field ''brand'') xs))"
  proof (intro allI impI)
    fix r t ys assume l: "load_data (snd (wishlist r t fs)) = Inr (JArr ys)"
    from wishlist_state_item [OF assms(1), of r t]
    show "set (map (field ''brand'') ys) \<subseteq> insert None (set (map (field ''brand'') xs))"
    proof
      assume "snd (wishlist r t fs) = fs"
      with l assms(1) have "ys = xs" by simp
      then show ?thesis by auto
    next
      assume "\<exists>a b c d. snd (wishlist r t fs) = Some (Document (JArr (xs @ [new_item a b c d t])))"
      then obtain a b c d where "snd (wishlist r t fs) = Some (Document (JArr (xs @ [new_item a b c d t])))"
        by blast
      with l have "ys = xs @ [new_item a b c d t]" by simp
      then show ?thesis by (auto simp: brand_new_item)
    qed
  qed
next
  show "\<forall>i ys. load_data (snd (delete_item i fs)) = Inr (JArr ys) \<longrightarrow>
          set (map (field ''brand'') ys) \<subseteq> set (map (field ''brand'') xs)"
  proof (intro allI impI)
    fix i ys assume l: "load_data (snd (delete_item i fs)) = Inr (JArr ys)"
    with delete_state [OF assms(1), of i]
    have "ys = (if 0 \<le> i \<and> i < int (length xs) then nths xs (- {nat i}) else xs)" by simp
    then have "set ys \<subseteq> set xs"
      using set_nths_subset [of xs "- {nat i}"] by (auto split: if_splits)
    then show "set (map (field ''brand'') ys) \<subseteq> set (map (field ''brand'') xs)" by auto
  qed
next
  show "\<forall>i ys. load_data (snd (reserve_item i fs)) = Inr (JArr ys) \<longrightarrow>
          map (field ''brand'') ys = map (field ''brand'') xs"
  proof (intro allI impI)
    fix i ys assume l: "load_data (snd (reserve_item i fs)) = Inr (JArr ys)"
    with reserve_state [OF assms(1), of i]
    have "map (drop_field ''purchased'') ys = map (drop_field ''purchased'') xs" by simp
    then show "map (field ''brand'') ys = map (field ''brand'') xs"
      by (rule brand_of_drop_purchased)
  qed
next
  show "\<forall>i ys. load_data (snd (unreserve_item i fs)) = Inr (JArr ys) \<longrightarrow>
          map (field ''brand'') ys = map (field ''brand'') xs"
  proof (intro allI impI)
    fix i ys assume l: "load_data (snd (unreserve_item i fs)) = Inr (JArr ys)"
    with unreserve_state [OF assms(1), of i]
    have "map (drop_field ''purchased'') ys = map (drop_field ''purchased'') xs" by simp
    then show "map (field ''brand'') ys = map (field ''brand'') xs"
      by (rule brand_of_drop_purchased)
  qed
qed

theorem views_project_with_defaults_witness:
  "load_data (Some (Document (JArr [JObj [],
        JObj [(''name'', JStr ''Pen''), (''brand'', JStr ''Acme''), (''purchased'', JBool True)]])))
     = Inr (JArr [JObj [],
        JObj [(''name'', JStr ''Pen''), (''brand'', JStr ''Acme''), (''purchased'', JBool True)]])
   \<and> list_all is_item [JObj [],
        JObj [(''name'', JStr ''Pen''), (''brand'', JStr ''Acme''), (''purchased'', JBool True)]]
   \<and> req_method \<lparr>req_method = ''GET'', req_form = Map.empty\<rparr> \<noteq> ''POST''
   \<and> (\<exists>items.
         wishlist \<lparr>req_method = ''GET'', req_form = Map.empty\<rparr> []
           (Some (Document (JArr [JObj [],
              JObj [(''name'', JStr ''Pen''), (''brand'', JStr ''Acme''), (''purchased'', JBool True)]])))
           = (Inr (Render ''wishlist.html'' items),
              Some (Document (JArr [JObj [],
                JObj [(''name'', JStr ''Pen''), (''brand'', JStr ''Acme''), (''purchased'', JBool True)]])))
       \<and> public_view
           (Some (Document (JArr [JObj [],
              JObj [(''name'', JStr ''Pen''), (''brand'', JStr ''Acme''), (''purchased'', JBool True)]])))
           = (Inr (Render ''public_list.html'' items),
              Some (Document (JArr [JObj [],
                JObj [(''name'', JStr ''Pen''), (''brand'', JStr ''Acme''), (''purchased'', JBool True)]])))
       \<and> length items = 2
       \<and> items ! 0 = JObj [(''index'', JInt 0), (''name'', JStr ''-''), (''brand'', JStr []),
                            (''link'', JStr []), (''notes'', JStr []), (''image'', JNull),
                            (''purchased'', JBool False)]
       \<and> items ! 1 = JObj [(''index'', JInt 1), (''name'', JStr ''Pen''), (''brand'', JStr ''Acme''),
                            (''link'', JStr []), (''notes'', JStr []), (''image'', JNull),
                            (''purchased'', JBool True)])"
proof -
  let ?xs = "[JObj [],
        JObj [(''name'', JStr ''Pen''), (''brand'', JStr ''Acme''), (''purchased'', JBool True)]]"
  let ?fs = "Some (Document (JArr ?xs))"
  let ?req = "\<lparr>req_method = ''GET'', req_form = Map.empty\<rparr>"
  have h1: "load_data ?fs = Inr (JArr ?xs)" by simp
  have h2: "\<forall>x \<in> set ?xs. is_item x" by simp
  have h2': "list_all is_item ?xs" by simp
  have h3: "req_method ?req \<noteq> ''POST''" by simp
  from views_project_with_defaults [OF h1 h2 h3, of "[]"]
  obtain items where w: "wishlist ?req [] ?fs = (Inr (Render ''wishlist.html'' items), ?fs)"
    and p: "public_view ?fs = (Inr (Render ''public_list.html'' items), ?fs)"
    and l: "length items = length ?xs"
    and e: "\<forall>k. k < length ?xs \<longrightarrow> items ! k =
                 JObj [(''index'', JInt (int k)),
                       (''name'', case field ''name'' (?xs ! k) of None \<Rightarrow> JStr ''-'' | Some v \<Rightarrow> v),
                       (''brand'', case field ''brand'' (?xs ! k) of None \<Rightarrow> JStr [] | Some v \<Rightarrow> v),
                       (''link'', case field ''link'' (?xs ! k) of None \<Rightarrow> JStr [] | Some v \<Rightarrow> v),
                       (''notes'', case field ''notes'' (?xs ! k) of None \<Rightarrow> JStr [] | Some v \<Rightarrow> v),
                       (''image'', case field ''image'' (?xs ! k) of None \<Rightarrow> JNull | Some v \<Rightarrow> v),
                       (''purchased'', case field ''purchased'' (?xs ! k) of
                                         None \<Rightarrow> JBool False | Some v \<Rightarrow> v)]"
    by blast
  from l have l2: "length items = 2" by simp
  from e have e0: "items ! 0 = JObj [(''index'', JInt 0), (''name'', JStr ''-''), (''brand'', JStr []),
                            (''link'', JStr []), (''notes'', JStr []), (''image'', JNull),
                            (''purchased'', JBool False)]"
    by simp
  from e have "1 < length ?xs \<longrightarrow> items ! 1 =
                 JObj [(''index'', JInt (int 1)),
                       (''name'', case field ''name'' (?xs ! 1) of None \<Rightarrow> JStr ''-'' | Some v \<Rightarrow> v),
                       (''brand'', case field ''brand'' (?xs ! 1) of None \<Rightarrow> JStr [] | Some v \<Rightarrow> v),
                       (''link'', case field ''link'' (?xs ! 1) of None \<Rightarrow> JStr [] | Some v \<Rightarrow> v),
                       (''notes'', case field ''notes'' (?xs ! 1) of None \<Rightarrow> JStr [] | Some v \<Rightarrow> v),
                       (''image'', case field ''image'' (?xs ! 1) of None \<Rightarrow> JNull | Some v \<Rightarrow> v),
                       (''purchased'', case field ''purchased'' (?xs ! 1) of
                                         None \<Rightarrow> JBool False | Some v \<Rightarrow> v)]"
    by blast
  then have e1: "items ! 1 = JObj [(''index'', JInt 1), (''name'', JStr ''Pen''), (''brand'', JStr ''Acme''),
                            (''link'', JStr []), (''notes'', JStr []), (''image'', JNull),
                            (''purchased'', JBool True)]"
    by simp
  from h1 h2' h3 w p l2 e0 e1 show ?thesis by blast
qed

end
